theory Spec2Isabelle
  imports Main
begin

section \<open>Errors\<close>

text \<open>
  Go error values. \<open>ErrNoRows\<close> is \<^verbatim>\<open>sql.ErrNoRows\<close>, \<open>ErrRecordNotFound\<close> is the
  package variable of \<^verbatim>\<open>catalog_con.go\<close>, \<open>ErrExternal\<close> is any error value produced by
  the driver or the store, \<open>Errorf m\<close> is \<^verbatim>\<open>fmt.Errorf(m)\<close> without a wrapped error and
  \<open>ErrorfW m e\<close> is \<^verbatim>\<open>fmt.Errorf(m + "%w", e)\<close>: the formatted prefix and the error it wraps.
\<close>

datatype error =
    ErrNoRows
  | ErrRecordNotFound
  | ErrExternal string
  | Errorf string
  | ErrorfW string error

text \<open>\<^verbatim>\<open>errors.Is\<close>: the error itself or any error on its unwrap chain equals the target.\<close>

fun errors_Is :: "error \<Rightarrow> error \<Rightarrow> bool" where
  "errors_Is (ErrorfW m e) target = (ErrorfW m e = target \<or> errors_Is e target)"
| "errors_Is ErrNoRows target = (ErrNoRows = target)"
| "errors_Is ErrRecordNotFound target = (ErrRecordNotFound = target)"
| "errors_Is (ErrExternal s) target = (ErrExternal s = target)"
| "errors_Is (Errorf s) target = (Errorf s = target)"

section \<open>Data model\<close>

text \<open>
  \<^verbatim>\<open>time.Duration\<close> is a count of nanoseconds; the code only stores durations and compares
  them with zero, so they are integers here. \<^verbatim>\<open>int\<close> fields are treated the same way.
\<close>

definition Minute :: int where
  "Minute = 60 * 1000000000"

definition Hour :: int where
  "Hour = 60 * Minute"

text \<open>
  \<^verbatim>\<open>TenantConnectOptions\<close> (tenant_con_v2.go, lines 15-25). A \<^verbatim>\<open>QueryLogger\<close> is a function
  value; \<open>None\<close> is the nil logger and \<open>Some n\<close> the caller's logger number \<open>n\<close>.
\<close>

record TenantConnectOptions =
  Tenant :: string
  MaxOpenConns :: int
  MaxIdleConns :: int
  ConnMaxIdle :: int
  ConnMaxLifetime :: int
  ForceUTC :: bool
  QueryLogger :: "nat option"
  CacheEnabled :: bool
  CacheTTL :: int

text \<open>
  \<^verbatim>\<open>TenantConnectionV2\<close> (lines 28-35). A \<^verbatim>\<open>*sql.DB\<close> is a handle number, \<open>None\<close> the nil
  pointer. The per-pool \<^verbatim>\<open>mu sync.RWMutex\<close> is taken at the start of \<^verbatim>\<open>Close\<close>,
  \<^verbatim>\<open>IsHealthy\<close> and \<^verbatim>\<open>GetDB\<close> and released by a deferred unlock when the method returns;
  no method calls another one while holding it. In the sequential runs modelled here it is
  therefore free at every call and it has no field in the record.
\<close>

record TenantConnectionV2 =
  DB :: "nat option"
  SearchPath :: string
  Options :: TenantConnectOptions
  createdAt :: int
  closed :: bool

text \<open>\<^verbatim>\<open>Connection\<close>, the value the first generation caches (tenant_con.go, lines 14-17).\<close>

record Connection =
  Connection_DB :: "nat option"
  Connection_SearchPath :: string

text \<open>\<^verbatim>\<open>Catalog\<close> (catalog_con.go, lines 14-21).\<close>

record Catalog =
  Driver :: string
  UserName :: string
  Password :: string
  Server :: string
  DatabaseName :: string
  SchemaName :: string

text \<open>
  The cache holds values of type \<^verbatim>\<open>any\<close>: the first generation stores a \<^verbatim>\<open>Connection\<close>
  value, the second a \<^verbatim>\<open>*TenantConnectionV2\<close> (an address, \<open>None\<close> for nil).
\<close>

datatype cached =
    CachedConnection Connection
  | CachedTenantConnectionV2 "nat option"

record cache_item =
  item :: cached
  cost :: int
  ttl :: int

section \<open>The outside world\<close>

text \<open>
  Contexts: the caller's, the 30 second setup context of \<^verbatim>\<open>GetTenantConnectionV2\<close>,
  \<^verbatim>\<open>context.Background()\<close> and the 5 second context of \<^verbatim>\<open>GetTenant\<close>.
\<close>

datatype ctx = CallerCtx nat | SetupCtx | BackgroundCtx | CatalogCtx

text \<open>Calls into \<^verbatim>\<open>database/sql\<close> whose outcome the program does not decide.\<close>

datatype request =
    CatalogScan string
  | SqlOpen string
  | Ping nat ctx
  | ExecStmt nat ctx string "string list"
  | QueryStmt nat ctx string "string list"
  | QueryRowStmt nat ctx string "string list"
  | RowScan nat
  | CloseDB nat

text \<open>
  What a run does, in order. Every cache event records whether the global \<^verbatim>\<open>Mutex\<close> was
  held when the cache was called.
\<close>

datatype event =
    Locked
  | Unlocked
  | CacheGet string bool
  | CacheSetWithTTL string int bool
  | CacheDel string bool
  | Called request
  | SetMaxOpenConns nat int
  | SetMaxIdleConns nat int
  | SetConnMaxIdleTime nat int
  | SetConnMaxLifetime nat int
  | LoggerCalled "nat option" string "string list"
  | Logged string

text \<open>
  The environment answers every request with an error or with success (\<open>None\<close>); the answer
  may depend on everything that happened before, so a probe can succeed once and fail later.
\<close>

type_synonym env = "event list \<Rightarrow> request \<Rightarrow> error option"

text \<open>
  The package state and the heap.
  \<^item> \<open>Mutex\<close>: whether the global \<^verbatim>\<open>Mutex\<close> of cache.go is held.
  \<^item> \<open>Connections\<close>: the ristretto cache as the map from keys to the last item set and not
    deleted. \<^verbatim>\<open>init()\<close> of cache.go assigns it or panics, so it is never nil here. The
    library applies a set through a buffer, so a lookup right after it may still miss, and
    it drops entries on expiry and under cost pressure; here a set is applied at once and
    an entry stays until it is deleted.
  \<^item> \<open>dbCatalog\<close>: \<open>None\<close> is the nil handle before \<^verbatim>\<open>Connect\<close>; \<open>Some rows\<close> is a handle to
    a store whose \<^verbatim>\<open>catalog\<close> table holds \<open>rows\<close>.
  \<^item> \<open>objects\<close>: the \<^verbatim>\<open>TenantConnectionV2\<close> object at each address; \<open>next_object\<close> is the
    next address \<^verbatim>\<open>&TenantConnectionV2{...}\<close> allocates.
  \<^item> \<open>live\<close>: the handles \<^verbatim>\<open>sql.Open\<close> returned and nobody closed; \<open>next_db\<close> the next handle.
  \<^item> \<open>now\<close>: the clock \<^verbatim>\<open>time.Now()\<close> reads.
  \<^item> \<open>history\<close>: the events so far.
\<close>

record world =
  Mutex :: bool
  Connections :: "string \<rightharpoonup> cache_item"
  dbCatalog :: "Catalog list option"
  objects :: "nat \<Rightarrow> TenantConnectionV2"
  next_object :: nat
  live :: "nat set"
  next_db :: nat
  now :: int
  history :: "event list"

text \<open>
  A call returns a value, or it does not return: a run-time panic (nil dereference, failed
  type assertion), the fatal error of unlocking a mutex that is not locked, or a goroutine
  blocked on a mutex that is held.
\<close>

datatype abort =
    NilPointerDereference
  | TypeAssertionFailed
  | UnlockOfUnlockedMutex
  | BlockedOnMutex

datatype 'a outcome = Returns 'a world | Aborts abort world

definition andThen :: "'a outcome \<Rightarrow> ('a \<Rightarrow> world \<Rightarrow> 'b outcome) \<Rightarrow> 'b outcome" where
  "andThen m f = (case m of Returns a w \<Rightarrow> f a w | Aborts c w \<Rightarrow> Aborts c w)"

definition record_event :: "event \<Rightarrow> world \<Rightarrow> world" where
  "record_event e w = w\<lparr>history := history w @ [e]\<rparr>"

subsection \<open>The global mutex (\<^verbatim>\<open>sync.Mutex\<close>)\<close>

definition Mutex_Lock :: "world \<Rightarrow> unit outcome" where
  "Mutex_Lock w =
     (if Mutex w then Aborts BlockedOnMutex w
      else Returns () (record_event Locked (w\<lparr>Mutex := True\<rparr>)))"

definition Mutex_Unlock :: "world \<Rightarrow> unit outcome" where
  "Mutex_Unlock w =
     (if Mutex w then Returns () (record_event Unlocked (w\<lparr>Mutex := False\<rparr>))
      else Aborts UnlockOfUnlockedMutex w)"

subsection \<open>The cache (\<^verbatim>\<open>Connections\<close>)\<close>

definition Connections_Get :: "string \<Rightarrow> world \<Rightarrow> cache_item option \<times> world" where
  "Connections_Get key w = (Connections w key, record_event (CacheGet key (Mutex w)) w)"

text \<open>\<^verbatim>\<open>SetWithTTL\<close> of the library stores nothing when the TTL is negative.\<close>

definition Connections_SetWithTTL :: "string \<Rightarrow> cached \<Rightarrow> int \<Rightarrow> int \<Rightarrow> world \<Rightarrow> world" where
  "Connections_SetWithTTL key v c t w =
     record_event (CacheSetWithTTL key t (Mutex w))
       (if t < 0 then w
        else w\<lparr>Connections := (Connections w)(key \<mapsto> \<lparr>item = v, cost = c, ttl = t\<rparr>)\<rparr>)"

definition Connections_Del :: "string \<Rightarrow> world \<Rightarrow> world" where
  "Connections_Del key w =
     record_event (CacheDel key (Mutex w)) (w\<lparr>Connections := (Connections w)(key := None)\<rparr>)"

subsection \<open>\<^verbatim>\<open>database/sql\<close>\<close>

definition call :: "env \<Rightarrow> request \<Rightarrow> world \<Rightarrow> error option \<times> world" where
  "call env rq w = (env (history w) rq, record_event (Called rq) w)"

definition sql_Open :: "env \<Rightarrow> string \<Rightarrow> world \<Rightarrow> (error + nat) \<times> world" where
  "sql_Open env dsn w =
     (case call env (SqlOpen dsn) w of
        (Some err, w') \<Rightarrow> (Inl err, w')
      | (None, w') \<Rightarrow>
          (Inr (next_db w'),
           w'\<lparr>live := insert (next_db w') (live w'), next_db := Suc (next_db w')\<rparr>))"

text \<open>\<^verbatim>\<open>(*sql.DB).Close\<close>: the handle is closed whatever error the driver reports.\<close>

definition DB_Close :: "env \<Rightarrow> nat \<Rightarrow> world \<Rightarrow> error option \<times> world" where
  "DB_Close env h w =
     (case call env (CloseDB h) w of (r, w') \<Rightarrow> (r, w'\<lparr>live := live w' - {h}\<rparr>))"

section \<open>Catalog resolution (catalog_con.go)\<close>

text \<open>
  \<^verbatim>\<open>dbCatalog.QueryRowContext(ctx, query, tenant).Scan(...)\<close>: the store reports an error of
  its own, or the query \<^verbatim>\<open>WHERE schema_name = $1 LIMIT 1\<close> runs: with no matching row
  \<^verbatim>\<open>Scan\<close> gives \<^verbatim>\<open>sql.ErrNoRows\<close>, otherwise the first matching row is scanned.
\<close>

definition QueryRow_Scan :: "env \<Rightarrow> Catalog list \<Rightarrow> string \<Rightarrow> world \<Rightarrow> (error + Catalog) \<times> world" where
  "QueryRow_Scan env rows tenant w =
     (case call env (CatalogScan tenant) w of
        (Some err, w') \<Rightarrow> (Inl err, w')
      | (None, w') \<Rightarrow>
          (case filter (\<lambda>r. SchemaName r = tenant) rows of
             [] \<Rightarrow> (Inl ErrNoRows, w')
           | r # rest \<Rightarrow> (Inr r, w')))"

text \<open>
  \<^verbatim>\<open>GetTenant\<close> (catalog_con.go, lines 45-77). The context argument is overwritten by the
  5 second context before it is read, so it is not a parameter here. Calling a method of
  the nil \<^verbatim>\<open>dbCatalog\<close> panics.
\<close>

definition GetTenant :: "env \<Rightarrow> string \<Rightarrow> world \<Rightarrow> (error + Catalog) outcome" where
  "GetTenant env tenant w =
     (case dbCatalog w of
        None \<Rightarrow> Aborts NilPointerDereference w
      | Some rows \<Rightarrow>
          (case QueryRow_Scan env rows tenant w of
             (Inl err, w') \<Rightarrow>
               (if errors_Is err ErrNoRows then Returns (Inl ErrRecordNotFound) w'
                else Returns (Inl err) w')
           | (Inr catalog, w') \<Rightarrow> Returns (Inr catalog) w'))"

section \<open>The second generation: \<^verbatim>\<open>GetTenantConnectionV2\<close> (tenant_con_v2.go)\<close>

definition prefixConnection :: string where
  "prefixConnection = ''con-''"

text \<open>The key \<^verbatim>\<open>prefixConnection + "v2-" + opts.Tenant\<close> of lines 80, 159 and 186.\<close>

definition cacheKeyV2 :: "string \<Rightarrow> string" where
  "cacheKeyV2 tenant = prefixConnection @ ''v2-'' @ tenant"

text \<open>Lines 56-71: the defaults of the numeric and duration fields, in the order of the code.\<close>

definition apply_defaults :: "TenantConnectOptions \<Rightarrow> TenantConnectOptions" where
  "apply_defaults opts =
     (let o1 = (if CacheTTL opts = 0 then opts\<lparr>CacheTTL := 55 * Minute\<rparr> else opts);
          o2 = (if ConnMaxLifetime o1 = 0 then o1\<lparr>ConnMaxLifetime := 1 * Hour\<rparr> else o1);
          o3 = (if ConnMaxIdle o2 = 0 then o2\<lparr>ConnMaxIdle := 1 * Hour\<rparr> else o2);
          o4 = (if MaxOpenConns o3 = 0 then o3\<lparr>MaxOpenConns := 25\<rparr> else o3);
          o5 = (if MaxIdleConns o4 = 0 then o4\<lparr>MaxIdleConns := 25\<rparr> else o4)
      in o5)"

text \<open>Lines 73-76: the cache flag.\<close>

definition resolve_cache_flag :: "TenantConnectOptions \<Rightarrow> TenantConnectOptions" where
  "resolve_cache_flag opts =
     (if CacheEnabled opts \<or> (\<not> CacheEnabled opts \<and> 0 < CacheTTL opts)
      then opts\<lparr>CacheEnabled := True\<rparr> else opts)"

text \<open>
  Lines 78-92: the cache is consulted. The result is \<open>Some a\<close> when the function returns the
  cached pool at address \<open>a\<close> (line 86) and \<open>None\<close> when control reaches line 94. The type
  assertion of line 83 panics on a value of another type, and line 85 dereferences the
  pool and its handle.
\<close>

definition cache_phase :: "env \<Rightarrow> ctx \<Rightarrow> TenantConnectOptions \<Rightarrow> world \<Rightarrow> nat option outcome" where
  "cache_phase env c opts w =
     (if CacheEnabled opts then
        andThen (Mutex_Lock w) (\<lambda>u w1.
          case Connections_Get (cacheKeyV2 (Tenant opts)) w1 of (found, w2) \<Rightarrow>
            andThen
              (case found of
                 None \<Rightarrow> Returns None w2
               | Some it \<Rightarrow>
                   andThen (Mutex_Unlock w2) (\<lambda>u w3.
                     case item it of
                       CachedConnection v1 \<Rightarrow> Aborts TypeAssertionFailed w3
                     | CachedTenantConnectionV2 None \<Rightarrow> Aborts NilPointerDereference w3
                     | CachedTenantConnectionV2 (Some a) \<Rightarrow>
                         (case DB (objects w3 a) of
                            None \<Rightarrow> Aborts NilPointerDereference w3
                          | Some h \<Rightarrow>
                              (case call env (Ping h c) w3 of
                                 (None, w4) \<Rightarrow> Returns (Some (Some a)) w4
                               | (Some err, w4) \<Rightarrow>
                                   Returns None
                                     (Connections_Del (cacheKeyV2 (Tenant opts)) w4)))))
              (\<lambda>early w5.
                 case early of
                   Some tc \<Rightarrow> Returns tc w5
                 | None \<Rightarrow> andThen (Mutex_Unlock w5) (\<lambda>u w6. Returns None w6)))
      else Returns None w)"

text \<open>\<^verbatim>\<open>db.Close(); return nil, fmt.Errorf(msg + "%w", err)\<close>, as at lines 124, 130, 137, 152.\<close>

definition close_and_return ::
  "env \<Rightarrow> nat \<Rightarrow> string \<Rightarrow> error \<Rightarrow> world \<Rightarrow> (nat option \<times> error option) outcome" where
  "close_and_return env db msg err w =
     (case DB_Close env db w of (r, w') \<Rightarrow> Returns (None, Some (ErrorfW msg err)) w')"

text \<open>Lines 112-115.\<close>

definition configure :: "TenantConnectOptions \<Rightarrow> nat \<Rightarrow> world \<Rightarrow> world" where
  "configure opts db w =
     record_event (SetConnMaxLifetime db (ConnMaxLifetime opts))
       (record_event (SetConnMaxIdleTime db (ConnMaxIdle opts))
         (record_event (SetMaxIdleConns db (MaxIdleConns opts))
           (record_event (SetMaxOpenConns db (MaxOpenConns opts)) w)))"

text \<open>Lines 142-166: the pool object, the final probe, the cache and the log line.\<close>

definition finish_phase ::
  "env \<Rightarrow> TenantConnectOptions \<Rightarrow> nat \<Rightarrow> world \<Rightarrow> (nat option \<times> error option) outcome" where
  "finish_phase env opts db w =
     (let a = next_object w;
          w1 = w\<lparr>objects := (objects w)
                 (a := \<lparr>DB = Some db, SearchPath = Tenant opts, Options = opts,
                        createdAt = now w, closed = False\<rparr>),
                next_object := Suc a\<rparr>
      in case call env (Ping db SetupCtx) w1 of
           (Some err, w2) \<Rightarrow>
             close_and_return env db
               (''final connection validation failed for tenant '' @ Tenant opts @ '': '') err w2
         | (None, w2) \<Rightarrow>
             andThen
               (if CacheEnabled opts then
                  andThen (Mutex_Lock w2) (\<lambda>u w3.
                    Mutex_Unlock
                      (Connections_SetWithTTL (cacheKeyV2 (Tenant opts))
                         (CachedTenantConnectionV2 (Some a)) 1 (CacheTTL opts) w3))
                else Returns () w2)
               (\<lambda>u w4.
                  Returns (Some a, None)
                    (record_event
                       (Logged (''TenantConnectionV2 created for tenant: '' @ Tenant opts)) w4)))"

text \<open>Lines 122-140: the probe, the search path and the time zone, each on the setup context.\<close>

definition setup_phase ::
  "env \<Rightarrow> TenantConnectOptions \<Rightarrow> nat \<Rightarrow> world \<Rightarrow> (nat option \<times> error option) outcome" where
  "setup_phase env opts db w =
     (case call env (Ping db SetupCtx) w of
        (Some err, w1) \<Rightarrow>
          close_and_return env db
            (''failed to ping database for tenant '' @ Tenant opts @ '': '') err w1
      | (None, w1) \<Rightarrow>
          (case call env (ExecStmt db SetupCtx (''SET search_path TO '' @ Tenant opts) []) w1 of
             (Some err, w2) \<Rightarrow>
               close_and_return env db
                 (''failed to set search_path for tenant '' @ Tenant opts @ '': '') err w2
           | (None, w2) \<Rightarrow>
               (if ForceUTC opts then
                  (case call env
                          (ExecStmt db SetupCtx
                             (''SET TIMEZONE='' @ [CHR 0x27] @ ''UTC'' @ [CHR 0x27]) []) w2 of
                     (Some err, w3) \<Rightarrow>
                       close_and_return env db
                         (''failed to set timezone for tenant '' @ Tenant opts @ '': '') err w3
                   | (None, w3) \<Rightarrow> finish_phase env opts db w3)
                else finish_phase env opts db w2)))"

text \<open>Line 101: the connection string.\<close>

definition dsn_of :: "Catalog \<Rightarrow> string" where
  "dsn_of c =
     Driver c @ ''://'' @ UserName c @ '':'' @ Password c @ ''@'' @ Server c @ ''/'' @
     DatabaseName c @ ''?sslmode=disable''"

text \<open>Lines 94-120: the catalog, the handle and its limits.\<close>

definition build_phase ::
  "env \<Rightarrow> TenantConnectOptions \<Rightarrow> world \<Rightarrow> (nat option \<times> error option) outcome" where
  "build_phase env opts w =
     andThen (GetTenant env (Tenant opts) w) (\<lambda>r w1.
       case r of
         Inl err \<Rightarrow> Returns (None, Some (ErrorfW ''failed to get tenant info: '' err)) w1
       | Inr catalog \<Rightarrow>
           (case sql_Open env (dsn_of catalog) w1 of
              (Inl err, w2) \<Rightarrow>
                Returns
                  (None,
                   Some (ErrorfW
                     (''failed to open database connection for tenant '' @ Tenant opts @ '': '')
                     err)) w2
            | (Inr db, w2) \<Rightarrow> setup_phase env opts db (configure opts db w2)))"

text \<open>
  \<^verbatim>\<open>GetTenantConnectionV2\<close> (lines 51-166). The result is the pair of the returned pointer
  and the returned error.
\<close>

definition GetTenantConnectionV2 ::
  "env \<Rightarrow> ctx \<Rightarrow> TenantConnectOptions \<Rightarrow> world \<Rightarrow> (nat option \<times> error option) outcome" where
  "GetTenantConnectionV2 env c opts0 w =
     (if Tenant opts0 = [] then Returns (None, Some (Errorf ''tenant name is required'')) w
      else
        let opts = resolve_cache_flag (apply_defaults opts0) in
        andThen (cache_phase env c opts w) (\<lambda>hit w1.
          case hit of
            Some a \<Rightarrow> Returns (Some a, None) w1
          | None \<Rightarrow> build_phase env opts w1))"

section \<open>The methods of \<^verbatim>\<open>*TenantConnectionV2\<close>\<close>

text \<open>
  A receiver is a pointer: \<open>None\<close> is nil and \<open>Some a\<close> the object at address \<open>a\<close>.

  \<^verbatim>\<open>Close\<close> (lines 169-197). \<^verbatim>\<open>Connections != nil\<close> holds after \<^verbatim>\<open>init()\<close>.
\<close>

definition Close :: "env \<Rightarrow> nat option \<Rightarrow> world \<Rightarrow> error option outcome" where
  "Close env tc w =
     (case tc of
        None \<Rightarrow> Returns None w
      | Some a \<Rightarrow>
          (if closed (objects w a) \<or> DB (objects w a) = None then Returns None w
           else
             andThen
               (if CacheEnabled (Options (objects w a)) then
                  andThen (Mutex_Lock w) (\<lambda>u w1.
                    Mutex_Unlock
                      (Connections_Del (cacheKeyV2 (Tenant (Options (objects w a)))) w1))
                else Returns () w)
               (\<lambda>u w2.
                  case DB (objects w2 a) of
                    None \<Rightarrow> Aborts NilPointerDereference w2
                  | Some h \<Rightarrow>
                      (case DB_Close env h w2 of
                         (err, w3) \<Rightarrow>
                           Returns err
                             (record_event
                                (Logged (''TenantConnectionV2 closed for tenant: '' @
                                         Tenant (Options (objects w3 a))))
                                (w3\<lparr>objects := (objects w3)
                                       (a := (objects w3 a)\<lparr>closed := True\<rparr>)\<rparr>))))))"

text \<open>\<^verbatim>\<open>IsHealthy\<close> (lines 200-213).\<close>

definition IsHealthy :: "env \<Rightarrow> nat option \<Rightarrow> ctx \<Rightarrow> world \<Rightarrow> bool outcome" where
  "IsHealthy env tc c w =
     (case tc of
        None \<Rightarrow> Returns False w
      | Some a \<Rightarrow>
          (if closed (objects w a) \<or> DB (objects w a) = None then Returns False w
           else
             (case DB (objects w a) of
                None \<Rightarrow> Aborts NilPointerDereference w
              | Some h \<Rightarrow>
                  (case call env (Ping h c) w of (r, w') \<Rightarrow> Returns (r = None) w'))))"

text \<open>
  \<^verbatim>\<open>time.Since\<close>: the difference as a \<^verbatim>\<open>time.Duration\<close>, which is an \<^verbatim>\<open>int64\<close>; a difference
  out of its range is returned as the largest or the smallest duration.
\<close>

definition time_Since :: "int \<Rightarrow> int \<Rightarrow> int" where
  "time_Since current t =
     (if current - t > 9223372036854775807 then 9223372036854775807
      else if current - t < - 9223372036854775808 then - 9223372036854775808
      else current - t)"

text \<open>\<^verbatim>\<open>GetAge\<close> (lines 216-218): \<^verbatim>\<open>time.Since(tc.createdAt)\<close> reads a field of the receiver.\<close>

definition GetAge :: "nat option \<Rightarrow> world \<Rightarrow> int outcome" where
  "GetAge tc w =
     (case tc of
        None \<Rightarrow> Aborts NilPointerDereference w
      | Some a \<Rightarrow> Returns (time_Since (now w) (createdAt (objects w a))) w)"

text \<open>\<^verbatim>\<open>GetDB\<close> (lines 221-235).\<close>

definition GetDB :: "nat option \<Rightarrow> world \<Rightarrow> nat option outcome" where
  "GetDB tc w =
     (case tc of
        None \<Rightarrow> Returns None w
      | Some a \<Rightarrow>
          (if closed (objects w a) then Returns None w else Returns (DB (objects w a)) w))"

text \<open>
  The logger of lines 297-304: the pool's \<^verbatim>\<open>QueryLogger\<close>, or the package's
  \<^verbatim>\<open>defaultLogger\<close> (never nil) when that is nil; the event names the logger by the pool's
  field, \<open>None\<close> standing for the default one.

  \<^verbatim>\<open>ExecWithLog\<close> (lines 290-309). A \<^verbatim>\<open>sql.Result\<close> is \<open>Some h\<close>, the result of a statement
  on handle \<open>h\<close>, or nil. The diagnostic line is logged without its elapsed time.
\<close>

definition ExecWithLog ::
  "env \<Rightarrow> nat option \<Rightarrow> ctx \<Rightarrow> string \<Rightarrow> string list \<Rightarrow> world \<Rightarrow>
     (nat option \<times> error option) outcome" where
  "ExecWithLog env tc c query args w =
     andThen (GetDB tc w) (\<lambda>db w1.
       case db of
         None \<Rightarrow> Returns (None, Some (Errorf ''connection is closed or invalid'')) w1
       | Some h \<Rightarrow>
           (case tc of
              None \<Rightarrow> Aborts NilPointerDereference w1
            | Some a \<Rightarrow>
                (case call env (ExecStmt h c query args)
                        (record_event
                           (LoggerCalled (QueryLogger (Options (objects w1 a))) query args) w1) of
                   (err, w2) \<Rightarrow>
                     Returns ((case err of None \<Rightarrow> Some h | Some e \<Rightarrow> None), err)
                       (record_event
                          (Logged (''[TenantExec]['' @ SearchPath (objects w2 a) @ '']'')) w2))))"

text \<open>\<^verbatim>\<open>QueryWithLog\<close> (lines 312-331). A \<^verbatim>\<open>*sql.Rows\<close> is \<open>Some h\<close> or nil.\<close>

definition QueryWithLog ::
  "env \<Rightarrow> nat option \<Rightarrow> ctx \<Rightarrow> string \<Rightarrow> string list \<Rightarrow> world \<Rightarrow>
     (nat option \<times> error option) outcome" where
  "QueryWithLog env tc c query args w =
     andThen (GetDB tc w) (\<lambda>db w1.
       case db of
         None \<Rightarrow> Returns (None, Some (Errorf ''connection is closed or invalid'')) w1
       | Some h \<Rightarrow>
           (case tc of
              None \<Rightarrow> Aborts NilPointerDereference w1
            | Some a \<Rightarrow>
                (case call env (QueryStmt h c query args)
                        (record_event
                           (LoggerCalled (QueryLogger (Options (objects w1 a))) query args) w1) of
                   (err, w2) \<Rightarrow>
                     Returns ((case err of None \<Rightarrow> Some h | Some e \<Rightarrow> None), err)
                       (record_event
                          (Logged (''[TenantQuery]['' @ SearchPath (objects w2 a) @ '']'')) w2))))"

text \<open>
  \<^verbatim>\<open>sql.Row\<close> of the Go standard library (database/sql, not part of this repository):
  \<^verbatim>\<open>type Row struct { err error; rows *Rows }\<close>, documented there with
  "One of these two will be non-nil". \<^verbatim>\<open>&sql.Row{}\<close> is the value with both fields nil.
\<close>

record sql_Row =
  Row_err :: "error option"
  Row_rows :: "nat option"

text \<open>
  \<^verbatim>\<open>(*sql.Row).Scan\<close> of the standard library: it returns the stored error when there is
  one; otherwise it calls \<^verbatim>\<open>r.rows.Next()\<close>, which reads fields of \<^verbatim>\<open>r.rows\<close> and so panics
  on the nil pointer. With a result set the outcome is the environment's.
\<close>

definition Row_Scan :: "env \<Rightarrow> sql_Row \<Rightarrow> world \<Rightarrow> error option outcome" where
  "Row_Scan env r w =
     (case Row_err r of
        Some e \<Rightarrow> Returns (Some e) w
      | None \<Rightarrow>
          (case Row_rows r of
             None \<Rightarrow> Aborts NilPointerDereference w
           | Some h \<Rightarrow> (case call env (RowScan h) w of (res, w') \<Rightarrow> Returns res w')))"

text \<open>
  \<^verbatim>\<open>QueryRowWithLog\<close> (lines 334-352). \<^verbatim>\<open>QueryRowContext\<close> stores the error of the query in
  the row it returns, or the result set.
\<close>

definition QueryRowWithLog ::
  "env \<Rightarrow> nat option \<Rightarrow> ctx \<Rightarrow> string \<Rightarrow> string list \<Rightarrow> world \<Rightarrow> sql_Row outcome" where
  "QueryRowWithLog env tc c query args w =
     andThen (GetDB tc w) (\<lambda>db w1.
       case db of
         None \<Rightarrow> Returns \<lparr>Row_err = None, Row_rows = None\<rparr> w1
       | Some h \<Rightarrow>
           (case tc of
              None \<Rightarrow> Aborts NilPointerDereference w1
            | Some a \<Rightarrow>
                (case call env (QueryRowStmt h c query args)
                        (record_event
                           (LoggerCalled (QueryLogger (Options (objects w1 a))) query args) w1) of
                   (err, w2) \<Rightarrow>
                     Returns
                       \<lparr>Row_err = err,
                        Row_rows = (case err of None \<Rightarrow> Some h | Some e \<Rightarrow> None)\<rparr> w2)))"

section \<open>The first generation: \<^verbatim>\<open>GetTenantConnection\<close> (tenant_con.go)\<close>

text \<open>
  \<^verbatim>\<open>defer Mutex.Unlock()\<close>: the unlock runs when the body returns and also when it panics.
\<close>

definition deferred_Unlock :: "'a outcome \<Rightarrow> 'a outcome" where
  "deferred_Unlock m =
     (case m of
        Returns a w \<Rightarrow> andThen (Mutex_Unlock w) (\<lambda>u w'. Returns a w')
      | Aborts c w \<Rightarrow>
          (case Mutex_Unlock w of
             Returns u w' \<Rightarrow> Aborts c w'
           | Aborts c' w' \<Rightarrow> Aborts c' w'))"

text \<open>The key \<^verbatim>\<open>prefixConnection + tenant\<close> of lines 24 and 48 of tenant_con.go.\<close>

definition cacheKeyV1 :: "string \<Rightarrow> string" where
  "cacheKeyV1 tenant = prefixConnection @ tenant"

text \<open>\<^verbatim>\<open>Connection{}\<close>.\<close>

definition no_Connection :: Connection where
  "no_Connection = \<lparr>Connection_DB = None, Connection_SearchPath = []\<rparr>"

text \<open>
  Lines 23-52 of tenant_con.go, the body between the lock and the deferred unlock. The
  variant of the same function that takes the mutex and the cache from another package
  has the same three error returns and the same statement.
\<close>

definition GetTenantConnection_body ::
  "env \<Rightarrow> string \<Rightarrow> world \<Rightarrow> (Connection \<times> error option) outcome" where
  "GetTenantConnection_body env tenant w =
     (case Connections_Get (cacheKeyV1 tenant) w of
        (Some it, w1) \<Rightarrow>
          (case item it of
             CachedConnection conn \<Rightarrow> Returns (conn, None) w1
           | CachedTenantConnectionV2 p \<Rightarrow> Aborts TypeAssertionFailed w1)
      | (None, w1) \<Rightarrow>
          andThen (GetTenant env tenant w1) (\<lambda>r w2.
            case r of
              Inl err \<Rightarrow> Returns (no_Connection, Some err) w2
            | Inr catalog \<Rightarrow>
                (case sql_Open env (dsn_of catalog) w2 of
                   (Inl err, w3) \<Rightarrow> Returns (no_Connection, Some err) w3
                 | (Inr dbCon, w3) \<Rightarrow>
                     (case call env
                             (ExecStmt dbCon BackgroundCtx (''SET search_path TO '' @ tenant) [])
                             (record_event
                                (Logged (''Connection create for tenant '' @ '' '' @ tenant)) w3) of
                        (Some err, w4) \<Rightarrow> Returns (no_Connection, Some err) w4
                      | (None, w4) \<Rightarrow>
                          Returns
                            (\<lparr>Connection_DB = Some dbCon, Connection_SearchPath = tenant\<rparr>, None)
                            (record_event (SetConnMaxIdleTime dbCon (1 * Hour))
                               (record_event (SetConnMaxLifetime dbCon (1 * Hour))
                                  (Connections_SetWithTTL (cacheKeyV1 tenant)
                                     (CachedConnection
                                        \<lparr>Connection_DB = Some dbCon,
                                         Connection_SearchPath = tenant\<rparr>)
                                     1 (1 * Hour) w4)))))))"

text \<open>\<^verbatim>\<open>GetTenantConnection\<close> (tenant_con.go, lines 19-53).\<close>

definition GetTenantConnection ::
  "env \<Rightarrow> string \<Rightarrow> world \<Rightarrow> (Connection \<times> error option) outcome" where
  "GetTenantConnection env tenant w =
     andThen (Mutex_Lock w) (\<lambda>u w1. deferred_Unlock (GetTenantConnection_body env tenant w1))"

section \<open>Observing a run\<close>

definition world_of :: "'a outcome \<Rightarrow> world" where
  "world_of m = (case m of Returns a w \<Rightarrow> w | Aborts c w \<Rightarrow> w)"

definition returned :: "'a outcome \<Rightarrow> 'a option" where
  "returned m = (case m of Returns a w \<Rightarrow> Some a | Aborts c w \<Rightarrow> None)"

definition aborted :: "'a outcome \<Rightarrow> abort option" where
  "aborted m = (case m of Returns a w \<Rightarrow> None | Aborts c w \<Rightarrow> Some c)"

text \<open>The history of \<open>w'\<close> continues the history of \<open>w\<close>.\<close>

definition grows :: "world \<Rightarrow> world \<Rightarrow> bool" where
  "grows w w' = (\<exists>es. history w' = history w @ es)"

section \<open>Concrete inputs\<close>

text \<open>\<^verbatim>\<open>TenantConnectOptions{}\<close> and \<^verbatim>\<open>TenantConnectionV2{}\<close>, the zero values.\<close>

definition zero_options :: TenantConnectOptions where
  "zero_options =
     \<lparr>Tenant = [], MaxOpenConns = 0, MaxIdleConns = 0, ConnMaxIdle = 0, ConnMaxLifetime = 0,
      ForceUTC = False, QueryLogger = None, CacheEnabled = False, CacheTTL = 0\<rparr>"

definition zero_pool :: TenantConnectionV2 where
  "zero_pool =
     \<lparr>DB = None, SearchPath = [], Options = zero_options, createdAt = 0, closed = False\<rparr>"

text \<open>A catalog row for the tenant \<^verbatim>\<open>acme\<close>.\<close>

definition acme_row :: Catalog where
  "acme_row =
     \<lparr>Driver = ''postgres'', UserName = ''u'', Password = ''p'', Server = ''db:5432'',
      DatabaseName = ''app'', SchemaName = ''acme''\<rparr>"

text \<open>
  A fresh process: the mutex free, the cache empty, the catalog connected and holding the
  row of \<^verbatim>\<open>acme\<close>, no handle opened.
\<close>

definition start_world :: world where
  "start_world =
     \<lparr>Mutex = False, Connections = Map.empty, dbCatalog = Some [acme_row],
      objects = (\<lambda>a. zero_pool), next_object = 0, live = {}, next_db = 0, now = 0,
      history = []\<rparr>"

text \<open>The pool of \<^verbatim>\<open>acme\<close> as \<^verbatim>\<open>GetTenantConnectionV2\<close> builds it on handle 0.\<close>

definition acme_pool :: TenantConnectionV2 where
  "acme_pool =
     \<lparr>DB = Some 0, SearchPath = ''acme'',
      Options = \<lparr>Tenant = ''acme'', MaxOpenConns = 25, MaxIdleConns = 25, ConnMaxIdle = Hour,
                 ConnMaxLifetime = Hour, ForceUTC = False, QueryLogger = None,
                 CacheEnabled = True, CacheTTL = 55 * Minute\<rparr>,
      createdAt = 0, closed = False\<rparr>"

text \<open>
  The process after that pool was built and cached at address 0, and after the row of
  \<^verbatim>\<open>acme\<close> was deleted from the catalog table.
\<close>

definition cached_world :: world where
  "cached_world =
     \<lparr>Mutex = False,
      Connections = [''con-v2-acme'' \<mapsto>
        \<lparr>item = CachedTenantConnectionV2 (Some 0), cost = 1, ttl = 55 * Minute\<rparr>],
      dbCatalog = Some [],
      objects = (\<lambda>a. zero_pool)(0 := acme_pool), next_object = 1, live = {0}, next_db = 1,
      now = 0, history = []\<rparr>"

text \<open>
  A process in which the first generation has cached its connection for a tenant named
  \<^verbatim>\<open>v2-acme\<close>.
\<close>

definition v1_cached_world :: world where
  "v1_cached_world =
     \<lparr>Mutex = False,
      Connections = [''con-v2-acme'' \<mapsto>
        \<lparr>item = CachedConnection \<lparr>Connection_DB = Some 0, Connection_SearchPath = ''v2-acme''\<rparr>,
         cost = 1, ttl = Hour\<rparr>],
      dbCatalog = Some [acme_row],
      objects = (\<lambda>a. zero_pool), next_object = 0, live = {0}, next_db = 1,
      now = 0, history = []\<rparr>"

text \<open>Environments: every request succeeds; every probe, statement or close fails.\<close>

definition all_ok :: env where
  "all_ok = (\<lambda>h r. None)"

definition ping_fails :: env where
  "ping_fails = (\<lambda>h r. case r of Ping db c \<Rightarrow> Some (ErrExternal ''connection refused'') | _ \<Rightarrow> None)"

definition exec_fails :: env where
  "exec_fails =
     (\<lambda>h r. case r of ExecStmt db c q args \<Rightarrow> Some (ErrExternal ''syntax error'') | _ \<Rightarrow> None)"

definition close_fails :: env where
  "close_fails = (\<lambda>h r. case r of CloseDB db \<Rightarrow> Some (ErrExternal ''close failed'') | _ \<Rightarrow> None)"

text \<open>The process after \<^verbatim>\<open>Close\<close> on that pool: evicted, its handle closed, the flag set.\<close>

definition closed_world :: world where
  "closed_world =
     cached_world\<lparr>Connections := Map.empty,
                  objects := (objects cached_world)(0 := acme_pool\<lparr>closed := True\<rparr>),
                  live := {}\<rparr>"

section \<open>Supporting facts\<close>

lemma record_event_fields:
  "live (record_event e w) = live w" "next_db (record_event e w) = next_db w"
  "Connections (record_event e w) = Connections w" "objects (record_event e w) = objects w"
  "next_object (record_event e w) = next_object w" "Mutex (record_event e w) = Mutex w"
  "dbCatalog (record_event e w) = dbCatalog w" "now (record_event e w) = now w"
  "history (record_event e w) = history w @ [e]"
  by (simp_all add: record_event_def)

text \<open>
  After lines 56-76 caching is off exactly when the caller left the flag false and gave a
  negative TTL.
\<close>

lemma resolved_flag:
  "CacheEnabled (resolve_cache_flag (apply_defaults opts)) = (CacheEnabled opts \<or> 0 \<le> CacheTTL opts)"
  by (auto simp add: apply_defaults_def resolve_cache_flag_def Let_def Minute_def)

lemma resolved_tenant: "Tenant (resolve_cache_flag (apply_defaults opts)) = Tenant opts"
  by (simp add: apply_defaults_def resolve_cache_flag_def Let_def)

lemma resolved_ttl:
  "0 \<le> CacheTTL opts \<Longrightarrow> 0 \<le> CacheTTL (resolve_cache_flag (apply_defaults opts))"
  by (simp add: apply_defaults_def resolve_cache_flag_def Let_def Minute_def)

text \<open>The path of lines 79-91 on which the cached pool is found and its probe fails.\<close>

lemma cache_phase_stale:
  assumes "CacheEnabled opts" "\<not> Mutex w"
    "Connections w (cacheKeyV2 (Tenant opts)) = Some it"
    "item it = CachedTenantConnectionV2 (Some a)"
    "DB (objects w a) = Some h"
    "env (history w @ [Locked, CacheGet (cacheKeyV2 (Tenant opts)) True, Unlocked]) (Ping h c) =
       Some err"
  shows "aborted (cache_phase env c opts w) = Some UnlockOfUnlockedMutex"
    and "history (world_of (cache_phase env c opts w)) = history w @
        [Locked, CacheGet (cacheKeyV2 (Tenant opts)) True, Unlocked, Called (Ping h c),
         CacheDel (cacheKeyV2 (Tenant opts)) False]"
  using assms
  by (simp_all add: cache_phase_def andThen_def Mutex_Lock_def Mutex_Unlock_def
      Connections_Get_def Connections_Del_def call_def record_event_def aborted_def world_of_def)

text \<open>The path of lines 79-91 on which nothing is cached under the key.\<close>

lemma cache_phase_miss:
  assumes "\<not> Mutex w" "Connections w (cacheKeyV2 (Tenant opts)) = None"
  shows "\<exists>w1. cache_phase env c opts w = Returns None w1 \<and> Connections w1 = Connections w \<and>
     live w1 = live w \<and> next_db w1 = next_db w \<and> objects w1 = objects w \<and>
     next_object w1 = next_object w \<and> dbCatalog w1 = dbCatalog w \<and> Mutex w1 = Mutex w"
  using assms
  by (simp add: cache_phase_def andThen_def Mutex_Lock_def Mutex_Unlock_def Connections_Get_def
      record_event_def)

lemma GetTenant_not_found:
  assumes "dbCatalog w = Some rows" "filter (\<lambda>r. SchemaName r = tenant) rows = []"
    "env (history w) (CatalogScan tenant) = None"
  shows "GetTenant env tenant w =
     Returns (Inl ErrRecordNotFound) (record_event (Called (CatalogScan tenant)) w)"
  using assms by (simp add: GetTenant_def QueryRow_Scan_def call_def)

text \<open>
  Every error return of \<^verbatim>\<open>GetTenantConnectionV2\<close> leaves no handle open that was not open
  before the call: each failure after \<^verbatim>\<open>sql.Open\<close> closes the handle first.
\<close>

lemma close_and_return_live:
  "close_and_return env db msg err w = Returns r w' \<Longrightarrow> live w' = live w - {db}"
  by (auto simp add: close_and_return_def DB_Close_def call_def record_event_def)

lemma finish_phase_live:
  "finish_phase env opts db w = Returns (p, Some err) w' \<Longrightarrow> live w' = live w - {db}"
  apply (simp add: finish_phase_def Let_def call_def record_event_def split: option.splits)
   apply (simp add: andThen_def Mutex_Lock_def Mutex_Unlock_def Connections_SetWithTTL_def
      record_event_def split: if_splits)
  apply (drule close_and_return_live)
  apply simp
  done

lemma setup_phase_live:
  "setup_phase env opts db w = Returns (p, Some err) w' \<Longrightarrow> live w' = live w - {db}"
  by (simp add: setup_phase_def call_def split: option.splits if_splits;
      (drule close_and_return_live | drule finish_phase_live); simp add: record_event_fields)

lemma GetTenant_frame:
  "GetTenant env t w = Returns r w' \<Longrightarrow> w' = record_event (Called (CatalogScan t)) w"
  by (auto simp add: GetTenant_def QueryRow_Scan_def call_def
      split: option.splits if_splits sum.splits list.splits)

lemma build_phase_live:
  "build_phase env opts w = Returns (p, Some err) w' \<Longrightarrow> live w' \<subseteq> live w"
  apply (simp add: build_phase_def andThen_def split: outcome.splits)
  apply (drule GetTenant_frame)
  apply (simp add: sql_Open_def call_def split: sum.splits option.splits;
         (drule setup_phase_live)?; auto simp add: configure_def record_event_fields)
  done

lemma cache_phase_live:
  "cache_phase env c opts w = Returns r w' \<Longrightarrow> live w' = live w"
  by (auto simp add: cache_phase_def andThen_def Mutex_Lock_def Mutex_Unlock_def
      Connections_Get_def Connections_Del_def call_def record_event_fields
      split: if_splits option.splits cached.splits outcome.splits)

lemma V2_failure_closes_handle:
  "GetTenantConnectionV2 env c opts w = Returns (p, Some err) w' \<Longrightarrow> live w' \<subseteq> live w"
  apply (simp add: GetTenantConnectionV2_def Let_def andThen_def
      split: if_splits outcome.splits option.splits)
  apply (drule cache_phase_live)
  apply (drule build_phase_live)
  apply simp
  done

text \<open>
  No step removes an event: the history after each phase continues the history before it.
\<close>

lemma grows_refl: "grows w w"
  by (simp add: grows_def)

lemma grows_trans: "grows w w1 \<Longrightarrow> grows w1 w2 \<Longrightarrow> grows w w2"
  by (auto simp add: grows_def)

lemma grows_event: "grows w w1 \<Longrightarrow> grows w (record_event e w1)"
  by (auto simp add: grows_def record_event_def)

lemma grows_fields:
  "grows w (w1\<lparr>live := l\<rparr>) = grows w w1"
  "grows w (w1\<lparr>next_db := n\<rparr>) = grows w w1"
  "grows w (w1\<lparr>Mutex := m\<rparr>) = grows w w1"
  "grows w (w1\<lparr>Connections := cs\<rparr>) = grows w w1"
  "grows w (w1\<lparr>objects := os\<rparr>) = grows w w1"
  "grows w (w1\<lparr>next_object := no\<rparr>) = grows w w1"
  by (simp_all add: grows_def)


lemma world_of_simps: "world_of (Returns a w) = w" "world_of (Aborts x w) = w"
  by (simp_all add: world_of_def)

lemma grows_close_and_return:
  "grows w w1 \<Longrightarrow> grows w (world_of (close_and_return env db msg err w1))"
  by (simp add: close_and_return_def DB_Close_def call_def world_of_simps grows_event grows_fields)

lemma grows_Lock: "grows w w1 \<Longrightarrow> grows w (world_of (Mutex_Lock w1))"
  by (simp add: Mutex_Lock_def world_of_simps grows_event grows_fields)

lemma grows_Unlock: "grows w w1 \<Longrightarrow> grows w (world_of (Mutex_Unlock w1))"
  by (simp add: Mutex_Unlock_def world_of_simps grows_event grows_fields)

lemma grows_andThen:
  assumes "grows w (world_of m)" and "\<And>a w1. grows w w1 \<Longrightarrow> grows w (world_of (f a w1))"
  shows "grows w (world_of (andThen m f))"
  using assms by (cases m) (simp_all add: andThen_def world_of_simps)


lemma grows_finish: "grows w w1 \<Longrightarrow> grows w (world_of (finish_phase env opts db w1))"
  unfolding finish_phase_def Let_def call_def
  by (auto simp add: world_of_simps grows_event grows_fields Connections_SetWithTTL_def
      split: option.splits
      intro!: grows_andThen grows_Lock grows_Unlock grows_close_and_return)

lemma grows_setup: "grows w w1 \<Longrightarrow> grows w (world_of (setup_phase env opts db w1))"
  unfolding setup_phase_def call_def
  by (auto simp add: world_of_simps grows_event grows_fields
      split: option.splits
      intro!: grows_finish grows_close_and_return)

lemma grows_GetTenant: "grows w w1 \<Longrightarrow> grows w (world_of (GetTenant env t w1))"
  unfolding GetTenant_def QueryRow_Scan_def call_def
  by (auto simp add: world_of_simps grows_event grows_fields
      split: option.splits list.splits)

lemma grows_build: "grows w w1 \<Longrightarrow> grows w (world_of (build_phase env opts w1))"
  unfolding build_phase_def sql_Open_def call_def configure_def
  by (auto simp add: world_of_simps grows_event grows_fields
      split: option.splits sum.splits
      intro!: grows_andThen grows_GetTenant grows_setup)


text \<open>With caching on, the call starts with the lock and the lookup of the key.\<close>

lemma grows_cache_phase:
  assumes "CacheEnabled opts" "\<not> Mutex w"
  shows "grows (record_event (CacheGet (cacheKeyV2 (Tenant opts)) True)
            (record_event Locked (w\<lparr>Mutex := True\<rparr>)))
          (world_of (cache_phase env c opts w))"
  using assms
  unfolding cache_phase_def Mutex_Lock_def Connections_Get_def call_def Connections_Del_def
  by (auto simp add: andThen_def world_of_simps grows_event grows_fields grows_refl
      record_event_fields Mutex_Unlock_def
      split: option.splits cached.splits)

lemma V2_consults_cache:
  assumes "Tenant opts \<noteq> []" "CacheEnabled opts \<or> 0 \<le> CacheTTL opts" "\<not> Mutex w"
  shows "\<exists>es. history (world_of (GetTenantConnectionV2 env c opts w)) =
     history w @ Locked # CacheGet (cacheKeyV2 (Tenant opts)) True # es"
proof -
  let ?o = "resolve_cache_flag (apply_defaults opts)"
  let ?wg = "record_event (CacheGet (cacheKeyV2 (Tenant opts)) True)
            (record_event Locked (w\<lparr>Mutex := True\<rparr>))"
  have e: "CacheEnabled ?o" using assms(2) by (simp add: resolved_flag)
  have t: "Tenant ?o = Tenant opts" by (rule resolved_tenant)
  have g: "grows ?wg (world_of (cache_phase env c ?o w))"
    using grows_cache_phase [OF e assms(3), of env c] t by simp
  have "grows ?wg (world_of (GetTenantConnectionV2 env c opts w))"
    using assms(1) g
    by (auto simp add: GetTenantConnectionV2_def Let_def world_of_simps
        split: option.splits intro!: grows_andThen grows_build)
  then show ?thesis
    by (auto simp add: grows_def record_event_def)
qed

text \<open>
  With caching on and a TTL that is not negative, a call that returns a pool leaves that
  pool in the cache under the tenant's key: it was found there (line 81) or it is stored
  there (line 160).
\<close>

lemma finish_phase_caches:
  assumes "CacheEnabled opts" "0 \<le> CacheTTL opts" "finish_phase env opts db w = Returns (Some a, None) w'"
  shows "Connections w' (cacheKeyV2 (Tenant opts)) =
     Some \<lparr>item = CachedTenantConnectionV2 (Some a), cost = 1, ttl = CacheTTL opts\<rparr>"
  using assms
  by (auto simp add: finish_phase_def Let_def call_def close_and_return_def DB_Close_def
      andThen_def Mutex_Lock_def Mutex_Unlock_def Connections_SetWithTTL_def record_event_def
      split: option.splits if_splits)

lemma setup_phase_caches:
  assumes "CacheEnabled opts" "0 \<le> CacheTTL opts" "setup_phase env opts db w = Returns (Some a, None) w'"
  shows "Connections w' (cacheKeyV2 (Tenant opts)) =
     Some \<lparr>item = CachedTenantConnectionV2 (Some a), cost = 1, ttl = CacheTTL opts\<rparr>"
  using assms
  by (auto simp add: setup_phase_def call_def close_and_return_def DB_Close_def
      split: option.splits if_splits dest: finish_phase_caches)

lemma build_phase_caches:
  assumes "CacheEnabled opts" "0 \<le> CacheTTL opts" "build_phase env opts w = Returns (Some a, None) w'"
  shows "Connections w' (cacheKeyV2 (Tenant opts)) =
     Some \<lparr>item = CachedTenantConnectionV2 (Some a), cost = 1, ttl = CacheTTL opts\<rparr>"
  using assms
  by (auto simp add: build_phase_def andThen_def sql_Open_def call_def
      split: outcome.splits sum.splits option.splits dest: setup_phase_caches)

lemma cache_phase_hit:
  assumes "cache_phase env c opts w = Returns (Some a) w'"
  shows "\<exists>it. Connections w' (cacheKeyV2 (Tenant opts)) = Some it \<and>
     item it = CachedTenantConnectionV2 (Some a)"
  using assms
  by (auto simp add: cache_phase_def andThen_def Mutex_Lock_def Mutex_Unlock_def
      Connections_Get_def Connections_Del_def call_def record_event_def
      split: if_splits option.splits cached.splits)

lemma V2_populates_cache:
  assumes "0 \<le> CacheTTL opts"
    "GetTenantConnectionV2 env c opts w = Returns (Some a, None) w'"
  shows "\<exists>it. Connections w' (cacheKeyV2 (Tenant opts)) = Some it \<and>
     item it = CachedTenantConnectionV2 (Some a)"
proof -
  let ?o = "resolve_cache_flag (apply_defaults opts)"
  have e: "CacheEnabled ?o" using assms(1) by (simp add: resolved_flag)
  have l: "0 \<le> CacheTTL ?o" using assms(1) by (rule resolved_ttl)
  have t: "Tenant ?o = Tenant opts" by (rule resolved_tenant)
  from assms(2) have ne: "Tenant opts \<noteq> []"
    by (auto simp add: GetTenantConnectionV2_def)
  from assms(2) ne obtain hit w1 where c: "cache_phase env c ?o w = Returns hit w1"
    and k: "(case hit of Some b \<Rightarrow> Returns (Some b, None) w1 | None \<Rightarrow> build_phase env ?o w1) =
       Returns (Some a, None) w'"
    by (auto simp add: GetTenantConnectionV2_def Let_def andThen_def split: outcome.splits)
  show ?thesis
  proof (cases hit)
    case None
    with k have "build_phase env ?o w1 = Returns (Some a, None) w'" by simp
    from build_phase_caches [OF e l this] t show ?thesis by simp
  next
    case (Some b)
    with k have "b = a" "w1 = w'" by simp_all
    with c Some have "cache_phase env c ?o w = Returns (Some a) w'" by simp
    from cache_phase_hit [OF this] t show ?thesis by simp
  qed
qed

text \<open>The definitions a concrete run of \<^verbatim>\<open>GetTenantConnectionV2\<close> unfolds.\<close>

lemmas run_defs =
  GetTenantConnectionV2_def apply_defaults_def resolve_cache_flag_def cache_phase_def
  build_phase_def setup_phase_def finish_phase_def configure_def close_and_return_def
  GetTenant_def QueryRow_Scan_def sql_Open_def DB_Close_def call_def Connections_Get_def
  Connections_SetWithTTL_def Connections_Del_def Mutex_Lock_def Mutex_Unlock_def
  record_event_def andThen_def cacheKeyV2_def prefixConnection_def dsn_of_def Let_def

lemmas example_defs =
  zero_options_def zero_pool_def acme_row_def start_world_def acme_pool_def cached_world_def
  all_ok_def world_of_def returned_def aborted_def Minute_def Hour_def

section \<open>The claims\<close>

text \<open>
  Claim C1 (the cache flag after default resolution). The claim says that a caller who
  sets \<^verbatim>\<open>CacheEnabled\<close> to false gets no caching: the cache is neither consulted nor
  populated. The code does otherwise. Line 57 replaces a zero \<^verbatim>\<open>CacheTTL\<close> by 55 minutes
  before line 74 tests \<^verbatim>\<open>CacheTTL > 0\<close>, so the resolved flag is true exactly when the
  caller's flag is true or the caller's TTL is not negative. For every options value
  with \<^verbatim>\<open>CacheEnabled\<close> false and a TTL that is not negative the resolved flag is true; a
  call with a tenant that finds the lock free takes it and looks the key up first; and
  whenever the call returns a pool, that pool is in the cache under the key. README_V2.md
  ("Use CacheEnabled: false para desabilitar o cache") and the test
  \<^verbatim>\<open>TestTenantConnectionV2_Basic\<close> ("Desabilita cache para teste") state the behaviour of the
  claim.
\<close>

theorem C1_explicit_false_is_overridden:
  assumes "\<not> CacheEnabled opts" and "0 \<le> CacheTTL opts"
  shows "CacheEnabled (resolve_cache_flag (apply_defaults opts)) \<and>
     (Tenant opts \<noteq> [] \<and> \<not> Mutex w \<longrightarrow>
        (\<exists>es. history (world_of (GetTenantConnectionV2 env c opts w)) =
           history w @ Locked # CacheGet (cacheKeyV2 (Tenant opts)) True # es)) \<and>
     (GetTenantConnectionV2 env c opts w = Returns (Some a, None) w' \<longrightarrow>
        (\<exists>it. Connections w' (cacheKeyV2 (Tenant opts)) = Some it \<and>
           item it = CachedTenantConnectionV2 (Some a)))"
proof -
  have e: "CacheEnabled opts \<or> 0 \<le> CacheTTL opts"
    using assms(2) by simp
  have "CacheEnabled (resolve_cache_flag (apply_defaults opts))"
    using e by (simp add: resolved_flag)
  moreover have "Tenant opts \<noteq> [] \<and> \<not> Mutex w \<longrightarrow>
        (\<exists>es. history (world_of (GetTenantConnectionV2 env c opts w)) =
           history w @ Locked # CacheGet (cacheKeyV2 (Tenant opts)) True # es)"
    using e by (simp add: V2_consults_cache)
  moreover have "GetTenantConnectionV2 env c opts w = Returns (Some a, None) w' \<longrightarrow>
        (\<exists>it. Connections w' (cacheKeyV2 (Tenant opts)) = Some it \<and>
           item it = CachedTenantConnectionV2 (Some a))"
    using assms(2) by (simp add: V2_populates_cache)
  ultimately show ?thesis by blast
qed

text \<open>
  C1 for \<^verbatim>\<open>TenantConnectOptions{Tenant: "acme", CacheEnabled: false}\<close> in a fresh process
  where every request succeeds: the whole run, with its lookup and its store.
\<close>

theorem C1_explicit_false_witness:
  "\<not> CacheEnabled (zero_options\<lparr>Tenant := ''acme'', CacheEnabled := False\<rparr>) \<and>
   CacheEnabled (resolve_cache_flag (apply_defaults
      (zero_options\<lparr>Tenant := ''acme'', CacheEnabled := False\<rparr>))) \<and>
   returned (GetTenantConnectionV2 all_ok (CallerCtx 0)
      (zero_options\<lparr>Tenant := ''acme'', CacheEnabled := False\<rparr>) start_world) =
     Some (Some 0, None) \<and>
   history (world_of (GetTenantConnectionV2 all_ok (CallerCtx 0)
      (zero_options\<lparr>Tenant := ''acme'', CacheEnabled := False\<rparr>) start_world)) =
     [Locked, CacheGet ''con-v2-acme'' True, Unlocked, Called (CatalogScan ''acme''),
      Called (SqlOpen ''postgres://u:p@db:5432/app?sslmode=disable''),
      SetMaxOpenConns 0 25, SetMaxIdleConns 0 25, SetConnMaxIdleTime 0 Hour,
      SetConnMaxLifetime 0 Hour, Called (Ping 0 SetupCtx),
      Called (ExecStmt 0 SetupCtx ''SET search_path TO acme'' []), Called (Ping 0 SetupCtx),
      Locked, CacheSetWithTTL ''con-v2-acme'' (55 * Minute) True, Unlocked,
      Logged ''TenantConnectionV2 created for tenant: acme''] \<and>
   Connections (world_of (GetTenantConnectionV2 all_ok (CallerCtx 0)
      (zero_options\<lparr>Tenant := ''acme'', CacheEnabled := False\<rparr>) start_world))
     ''con-v2-acme'' =
     Some \<lparr>item = CachedTenantConnectionV2 (Some 0), cost = 1, ttl = 55 * Minute\<rparr>"
proof -
  let ?o = "zero_options\<lparr>Tenant := ''acme'', CacheEnabled := False\<rparr>"
  have f: "\<not> CacheEnabled ?o" by simp
  have t: "0 \<le> CacheTTL ?o" by (simp add: zero_options_def)
  have r: "returned (GetTenantConnectionV2 all_ok (CallerCtx 0) ?o start_world) =
      Some (Some 0, None)"
    by (simp add: run_defs example_defs)
  have h: "history (world_of (GetTenantConnectionV2 all_ok (CallerCtx 0) ?o start_world)) =
     [Locked, CacheGet ''con-v2-acme'' True, Unlocked, Called (CatalogScan ''acme''),
      Called (SqlOpen ''postgres://u:p@db:5432/app?sslmode=disable''),
      SetMaxOpenConns 0 25, SetMaxIdleConns 0 25, SetConnMaxIdleTime 0 Hour,
      SetConnMaxLifetime 0 Hour, Called (Ping 0 SetupCtx),
      Called (ExecStmt 0 SetupCtx ''SET search_path TO acme'' []), Called (Ping 0 SetupCtx),
      Locked, CacheSetWithTTL ''con-v2-acme'' (55 * Minute) True, Unlocked,
      Logged ''TenantConnectionV2 created for tenant: acme'']"
    by (simp add: run_defs example_defs)
  have k: "Connections (world_of (GetTenantConnectionV2 all_ok (CallerCtx 0) ?o start_world))
     ''con-v2-acme'' =
     Some \<lparr>item = CachedTenantConnectionV2 (Some 0), cost = 1, ttl = 55 * Minute\<rparr>"
    by (simp add: run_defs example_defs)
  from C1_explicit_false_is_overridden [OF f t] f r h k
  show ?thesis by simp
qed

text \<open>
  Claim C2 (the stale entry and the global lock). The claim says that a stale entry is
  deleted before the lock is released, that the lock is never released while it is not
  held, and that the cache is only changed under the lock. On the code, whenever caching
  is on, the lock is free at the call, a pool is cached under the tenant's key and its
  probe fails, the run is: lock, lookup, unlock (line 82), probe, delete with the lock
  not held (line 89), and a second unlock (line 91) of the mutex that is no longer
  locked, which is a fatal error of the Go runtime; the call never returns.
\<close>

theorem C2_stale_entry_unlocks_twice:
  assumes "Tenant opts \<noteq> []" and "CacheEnabled opts \<or> 0 \<le> CacheTTL opts" and "\<not> Mutex w"
    and "Connections w (cacheKeyV2 (Tenant opts)) = Some it"
    and "item it = CachedTenantConnectionV2 (Some a)"
    and "DB (objects w a) = Some h"
    and "env (history w @ [Locked, CacheGet (cacheKeyV2 (Tenant opts)) True, Unlocked]) (Ping h c) =
           Some err"
  shows "aborted (GetTenantConnectionV2 env c opts w) = Some UnlockOfUnlockedMutex \<and>
     history (world_of (GetTenantConnectionV2 env c opts w)) = history w @
        [Locked, CacheGet (cacheKeyV2 (Tenant opts)) True, Unlocked, Called (Ping h c),
         CacheDel (cacheKeyV2 (Tenant opts)) False]"
proof -
  let ?o = "resolve_cache_flag (apply_defaults opts)"
  have e: "CacheEnabled ?o" using assms(2) by (simp add: resolved_flag)
  have t: "Tenant ?o = Tenant opts" by (rule resolved_tenant)
  have a: "aborted (cache_phase env c ?o w) = Some UnlockOfUnlockedMutex"
    using cache_phase_stale(1)[of ?o w it a h env c err] e assms t by simp
  have h: "history (world_of (cache_phase env c ?o w)) = history w @
        [Locked, CacheGet (cacheKeyV2 (Tenant opts)) True, Unlocked, Called (Ping h c),
         CacheDel (cacheKeyV2 (Tenant opts)) False]"
    using cache_phase_stale(2)[of ?o w it a h env c err] e assms t by simp
  from a obtain w' where r: "cache_phase env c ?o w = Aborts UnlockOfUnlockedMutex w'"
    by (cases "cache_phase env c ?o w") (simp_all add: aborted_def)
  with h have "history w' = history w @
        [Locked, CacheGet (cacheKeyV2 (Tenant opts)) True, Unlocked, Called (Ping h c),
         CacheDel (cacheKeyV2 (Tenant opts)) False]" by (simp add: world_of_def)
  with r assms(1) show ?thesis
    by (simp add: GetTenantConnectionV2_def Let_def andThen_def aborted_def world_of_def)
qed

text \<open>The run of C2 for the cached pool of \<^verbatim>\<open>acme\<close> when every probe fails.\<close>

theorem C2_stale_entry_witness:
  "aborted (GetTenantConnectionV2 ping_fails (CallerCtx 0) (zero_options\<lparr>Tenant := ''acme''\<rparr>)
      cached_world) = Some UnlockOfUnlockedMutex \<and>
   history (world_of (GetTenantConnectionV2 ping_fails (CallerCtx 0)
      (zero_options\<lparr>Tenant := ''acme''\<rparr>) cached_world)) =
     [Locked, CacheGet ''con-v2-acme'' True, Unlocked, Called (Ping 0 (CallerCtx 0)),
      CacheDel ''con-v2-acme'' False]"
  using C2_stale_entry_unlocks_twice [of "zero_options\<lparr>Tenant := ''acme''\<rparr>" cached_world
      "\<lparr>item = CachedTenantConnectionV2 (Some 0), cost = 1, ttl = 55 * Minute\<rparr>" 0 0
      ping_fails "CallerCtx 0" "ErrExternal ''connection refused''"]
  by (simp add: zero_options_def cached_world_def acme_pool_def ping_fails_def cacheKeyV2_def
      prefixConnection_def)

text \<open>
  Claim C3 (a tenant without a catalog row), as amended. For a non-empty tenant key that
  no row of the catalog table matches, when the catalog store is connected and answers
  the lookup, \<^verbatim>\<open>GetTenant\<close> returns \<^verbatim>\<open>ErrRecordNotFound\<close> and no other error; and a call of
  \<^verbatim>\<open>GetTenantConnectionV2\<close> for that tenant that finds the global lock free and no entry
  under the tenant's key returns the error
  \<^verbatim>\<open>"failed to get tenant info: %w"\<close> wrapping \<^verbatim>\<open>ErrRecordNotFound\<close>, opens no handle, creates
  no pool object and leaves the cache as it was.
\<close>

theorem C3_unknown_tenant:
  assumes "dbCatalog w = Some rows" and "\<forall>r\<in>set rows. SchemaName r \<noteq> Tenant opts"
    and "\<forall>h. env h (CatalogScan (Tenant opts)) = None"
    and "Tenant opts \<noteq> []" and "\<not> Mutex w"
    and "Connections w (cacheKeyV2 (Tenant opts)) = None"
  shows "GetTenant env (Tenant opts) w =
       Returns (Inl ErrRecordNotFound) (record_event (Called (CatalogScan (Tenant opts))) w) \<and>
     returned (GetTenantConnectionV2 env c opts w) =
       Some (None, Some (ErrorfW ''failed to get tenant info: '' ErrRecordNotFound)) \<and>
     errors_Is (ErrorfW ''failed to get tenant info: '' ErrRecordNotFound) ErrRecordNotFound \<and>
     Connections (world_of (GetTenantConnectionV2 env c opts w)) = Connections w \<and>
     live (world_of (GetTenantConnectionV2 env c opts w)) = live w \<and>
     next_db (world_of (GetTenantConnectionV2 env c opts w)) = next_db w \<and>
     objects (world_of (GetTenantConnectionV2 env c opts w)) = objects w \<and>
     next_object (world_of (GetTenantConnectionV2 env c opts w)) = next_object w"
proof -
  let ?o = "resolve_cache_flag (apply_defaults opts)"
  have t: "Tenant ?o = Tenant opts" by (rule resolved_tenant)
  have f: "filter (\<lambda>r. SchemaName r = Tenant opts) rows = []"
    using assms(2) by (simp add: filter_empty_conv)
  have g: "GetTenant env (Tenant opts) w =
      Returns (Inl ErrRecordNotFound) (record_event (Called (CatalogScan (Tenant opts))) w)"
    using assms(1) f assms(3) by (simp add: GetTenant_not_found)
  obtain w1 where c: "cache_phase env c ?o w = Returns None w1"
      and fr: "Connections w1 = Connections w" "live w1 = live w" "next_db w1 = next_db w"
        "objects w1 = objects w" "next_object w1 = next_object w" "dbCatalog w1 = dbCatalog w"
    using cache_phase_miss [of w ?o env c] assms(5,6) t by auto
  have g1: "GetTenant env (Tenant opts) w1 =
      Returns (Inl ErrRecordNotFound) (record_event (Called (CatalogScan (Tenant opts))) w1)"
    using assms(1) f assms(3) fr(6) by (simp add: GetTenant_not_found)
  have b: "build_phase env ?o w1 =
      Returns (None, Some (ErrorfW ''failed to get tenant info: '' ErrRecordNotFound))
        (record_event (Called (CatalogScan (Tenant opts))) w1)"
    using g1 t by (simp add: build_phase_def andThen_def)
  have r: "GetTenantConnectionV2 env c opts w =
      Returns (None, Some (ErrorfW ''failed to get tenant info: '' ErrRecordNotFound))
        (record_event (Called (CatalogScan (Tenant opts))) w1)"
    using assms(4) c b by (simp add: GetTenantConnectionV2_def Let_def andThen_def)
  show ?thesis
    using g r fr by (simp add: returned_def world_of_def record_event_fields)
qed

text \<open>C3 for the tenant \<^verbatim>\<open>ghost\<close> in a fresh process whose catalog holds only \<^verbatim>\<open>acme\<close>.\<close>

theorem C3_unknown_tenant_witness:
  "GetTenant all_ok ''ghost'' start_world =
       Returns (Inl ErrRecordNotFound) (record_event (Called (CatalogScan ''ghost'')) start_world) \<and>
   returned (GetTenantConnectionV2 all_ok (CallerCtx 0) (zero_options\<lparr>Tenant := ''ghost''\<rparr>)
      start_world) =
       Some (None, Some (ErrorfW ''failed to get tenant info: '' ErrRecordNotFound)) \<and>
   Connections (world_of (GetTenantConnectionV2 all_ok (CallerCtx 0)
      (zero_options\<lparr>Tenant := ''ghost''\<rparr>) start_world)) = Map.empty \<and>
   live (world_of (GetTenantConnectionV2 all_ok (CallerCtx 0)
      (zero_options\<lparr>Tenant := ''ghost''\<rparr>) start_world)) = {}"
  using C3_unknown_tenant [of start_world "[acme_row]" "zero_options\<lparr>Tenant := ''ghost''\<rparr>"
      all_ok "CallerCtx 0"]
  by (simp add: zero_options_def start_world_def acme_row_def all_ok_def)

text \<open>
  The claim as stated, for every tenant key, fails twice. With the empty key the call
  returns the validation error of line 53, which does not wrap \<^verbatim>\<open>ErrRecordNotFound\<close>. With
  a live pool still cached for a tenant whose row is gone from the catalog, the call
  returns the cached pool (lines 81-86) and the entry stays in the cache.
\<close>

theorem C3_counterexample:
  "returned (GetTenantConnectionV2 all_ok (CallerCtx 0) zero_options
      (start_world\<lparr>dbCatalog := Some []\<rparr>)) =
     Some (None, Some (Errorf ''tenant name is required'')) \<and>
   \<not> errors_Is (Errorf ''tenant name is required'') ErrRecordNotFound \<and>
   dbCatalog cached_world = Some [] \<and>
   returned (GetTenantConnectionV2 all_ok (CallerCtx 0) (zero_options\<lparr>Tenant := ''acme''\<rparr>)
      cached_world) = Some (Some 0, None) \<and>
   Connections (world_of (GetTenantConnectionV2 all_ok (CallerCtx 0)
      (zero_options\<lparr>Tenant := ''acme''\<rparr>) cached_world)) ''con-v2-acme'' =
     Some \<lparr>item = CachedTenantConnectionV2 (Some 0), cost = 1, ttl = 55 * Minute\<rparr>"
  by (simp add: run_defs example_defs)

text \<open>
  Claim C4 (\<^verbatim>\<open>Close\<close> is idempotent), as amended. On a pool that is already closed
  \<^verbatim>\<open>Close\<close> returns no error and changes nothing. After any call of \<^verbatim>\<open>Close\<close> that returned,
  with whatever error, a further call returns no error and changes nothing. After any
  call of \<^verbatim>\<open>Close\<close> that returned on a pool that has a handle, the closed flag is set,
  whatever the handle's own close reported. A call of \<^verbatim>\<open>Close\<close> that finds the global lock
  free returns. On a pool without a handle \<^verbatim>\<open>Close\<close> returns no error and changes nothing,
  so the flag is what it was.
\<close>

theorem C4_Close_idempotent:
  "(closed (objects w a) \<longrightarrow> Close env (Some a) w = Returns None w) \<and>
   (Close env (Some a) w = Returns e w1 \<longrightarrow> Close env2 (Some a) w1 = Returns None w1) \<and>
   (Close env (Some a) w = Returns e w1 \<and> DB (objects w a) \<noteq> None \<longrightarrow> closed (objects w1 a)) \<and>
   (\<not> Mutex w \<longrightarrow> (\<exists>e' w'. Close env (Some a) w = Returns e' w')) \<and>
   (DB (objects w a) = None \<longrightarrow>
      Close env (Some a) w = Returns None w \<and>
      closed (objects (world_of (Close env (Some a) w)) a) = closed (objects w a))"
proof -
  have first: "closed (objects w a) \<longrightarrow> Close env (Some a) w = Returns None w"
    by (simp add: Close_def)
  have flag: "Close env (Some a) w = Returns e w1 \<Longrightarrow> \<not> closed (objects w a) \<Longrightarrow>
      DB (objects w a) \<noteq> None \<Longrightarrow> closed (objects w1 a)"
    by (auto simp add: Close_def andThen_def Mutex_Lock_def Mutex_Unlock_def Connections_Del_def
        DB_Close_def call_def record_event_def split: if_splits option.splits)
  have same: "Close env (Some a) w = Returns e w1 \<Longrightarrow>
      closed (objects w a) \<or> DB (objects w a) = None \<Longrightarrow> w1 = w"
    by (auto simp add: Close_def)
  have second: "Close env (Some a) w = Returns e w1 \<longrightarrow> Close env2 (Some a) w1 = Returns None w1"
  proof
    assume r: "Close env (Some a) w = Returns e w1"
    show "Close env2 (Some a) w1 = Returns None w1"
    proof (cases "closed (objects w a) \<or> DB (objects w a) = None")
      case True
      with r have "w1 = w" by (rule same)
      with True show ?thesis by (simp add: Close_def)
    next
      case False
      with r have "closed (objects w1 a)" by (simp add: flag)
      then show ?thesis by (simp add: Close_def)
    qed
  qed
  have third: "Close env (Some a) w = Returns e w1 \<and> DB (objects w a) \<noteq> None \<longrightarrow>
      closed (objects w1 a)"
  proof
    assume r: "Close env (Some a) w = Returns e w1 \<and> DB (objects w a) \<noteq> None"
    show "closed (objects w1 a)"
    proof (cases "closed (objects w a)")
      case True
      with r have "w1 = w" using same by blast
      with True show ?thesis by simp
    next
      case False
      with r show ?thesis by (simp add: flag)
    qed
  qed
  have total: "\<not> Mutex w \<longrightarrow> (\<exists>e' w'. Close env (Some a) w = Returns e' w')"
    by (simp add: Close_def andThen_def Mutex_Lock_def Mutex_Unlock_def Connections_Del_def
        DB_Close_def call_def record_event_def split: option.splits)
  have nohandle: "DB (objects w a) = None \<longrightarrow>
      Close env (Some a) w = Returns None w \<and>
      closed (objects (world_of (Close env (Some a) w)) a) = closed (objects w a)"
    by (simp add: Close_def world_of_def)
  from first second third total nohandle show ?thesis by blast
qed

text \<open>
  C4 for the cached pool of \<^verbatim>\<open>acme\<close> when the handle's close fails: the error is returned,
  the flag is set, and the second call returns no error; and for the pool without a
  handle at address 0 of a fresh process: no error, nothing changed, the flag still false.
\<close>

theorem C4_Close_witness:
  "returned (Close close_fails (Some 0) cached_world) = Some (Some (ErrExternal ''close failed'')) \<and>
   closed (objects (world_of (Close close_fails (Some 0) cached_world)) 0) \<and>
   Close all_ok (Some 0) (world_of (Close close_fails (Some 0) cached_world)) =
     Returns None (world_of (Close close_fails (Some 0) cached_world)) \<and>
   DB (objects start_world 0) = None \<and>
   Close all_ok (Some 0) start_world = Returns None start_world \<and>
   closed (objects (world_of (Close all_ok (Some 0) start_world)) 0) = False"
proof -
  obtain w1 where r: "Close close_fails (Some 0) cached_world =
      Returns (Some (ErrExternal ''close failed'')) w1"
    by (simp add: Close_def close_fails_def run_defs example_defs)
  have d: "DB (objects cached_world 0) \<noteq> None"
    by (simp add: cached_world_def acme_pool_def)
  have n: "DB (objects start_world 0) = None"
    by (simp add: start_world_def zero_pool_def)
  have f: "closed (objects start_world 0) = False"
    by (simp add: start_world_def zero_pool_def)
  from C4_Close_idempotent [of cached_world 0 close_fails "Some (ErrExternal ''close failed'')"
      w1 all_ok] r d
  have one: "returned (Close close_fails (Some 0) cached_world) =
       Some (Some (ErrExternal ''close failed'')) \<and>
     closed (objects (world_of (Close close_fails (Some 0) cached_world)) 0) \<and>
     Close all_ok (Some 0) (world_of (Close close_fails (Some 0) cached_world)) =
       Returns None (world_of (Close close_fails (Some 0) cached_world))"
    by (simp add: returned_def world_of_def)
  from C4_Close_idempotent [of start_world 0 all_ok None start_world all_ok] n f
  have two: "Close all_ok (Some 0) start_world = Returns None start_world \<and>
     closed (objects (world_of (Close all_ok (Some 0) start_world)) 0) = False"
    by (simp add: world_of_def)
  from one two n f show ?thesis by (simp add: world_of_def)
qed

text \<open>
  The claim as stated, "after any call to Close the closed flag is true", fails for a pool
  without a handle: line 179 returns before line 194 for \<^verbatim>\<open>tc.DB == nil\<close>, and the flag of
  \<^verbatim>\<open>&TenantConnectionV2{}\<close> stays false.
\<close>

theorem C4_counterexample:
  "DB (objects start_world 0) = None \<and>
   Close all_ok (Some 0) start_world = Returns None start_world \<and>
   \<not> closed (objects (world_of (Close all_ok (Some 0) start_world)) 0)"
  by (simp add: Close_def start_world_def zero_pool_def world_of_def)

text \<open>
  Claim C5 (operations on a closed pool). For every pool whose closed flag is set:
  \<^verbatim>\<open>IsHealthy\<close> returns false, \<^verbatim>\<open>GetDB\<close> returns nil, \<^verbatim>\<open>ExecWithLog\<close> and \<^verbatim>\<open>QueryWithLog\<close>
  return the error "connection is closed or invalid", none of them calls the logger or the
  handle, and \<^verbatim>\<open>QueryRowWithLog\<close> returns \<^verbatim>\<open>&sql.Row{}\<close>. That row holds no error: its first
  use, \<^verbatim>\<open>Scan\<close>, does not return an error as the claim and the comment of lines 337-338
  say, it dereferences the nil result set and panics.
\<close>

theorem C5_closed_pool:
  assumes "closed (objects w a)"
  shows "IsHealthy env (Some a) c w = Returns False w \<and>
     GetDB (Some a) w = Returns None w \<and>
     ExecWithLog env (Some a) c query args w =
       Returns (None, Some (Errorf ''connection is closed or invalid'')) w \<and>
     QueryWithLog env (Some a) c query args w =
       Returns (None, Some (Errorf ''connection is closed or invalid'')) w \<and>
     QueryRowWithLog env (Some a) c query args w =
       Returns \<lparr>Row_err = None, Row_rows = None\<rparr> w \<and>
     Row_Scan env \<lparr>Row_err = None, Row_rows = None\<rparr> w = Aborts NilPointerDereference w"
  using assms
  by (simp add: IsHealthy_def GetDB_def ExecWithLog_def QueryWithLog_def QueryRowWithLog_def
      Row_Scan_def andThen_def)

text \<open>C5 for the pool of \<^verbatim>\<open>acme\<close> after it was closed.\<close>

theorem C5_closed_pool_witness:
  "closed (objects closed_world 0) \<and>
   IsHealthy all_ok (Some 0) (CallerCtx 0) closed_world = Returns False closed_world \<and>
   GetDB (Some 0) closed_world = Returns None closed_world \<and>
   ExecWithLog all_ok (Some 0) (CallerCtx 0) ''SELECT 1'' [] closed_world =
     Returns (None, Some (Errorf ''connection is closed or invalid'')) closed_world \<and>
   QueryWithLog all_ok (Some 0) (CallerCtx 0) ''SELECT 1'' [] closed_world =
     Returns (None, Some (Errorf ''connection is closed or invalid'')) closed_world \<and>
   QueryRowWithLog all_ok (Some 0) (CallerCtx 0) ''SELECT 1'' [] closed_world =
     Returns \<lparr>Row_err = None, Row_rows = None\<rparr> closed_world \<and>
   Row_Scan all_ok \<lparr>Row_err = None, Row_rows = None\<rparr> closed_world =
     Aborts NilPointerDereference closed_world"
proof -
  have c: "closed (objects closed_world 0)"
    by (simp add: closed_world_def)
  from C5_closed_pool [OF c, of all_ok "CallerCtx 0" "''SELECT 1''" "[]"] c
  show ?thesis by simp
qed

text \<open>
  Claim C6 (the defaults). For \<^verbatim>\<open>TenantConnectOptions{Tenant: "x"}\<close> the resolution of
  lines 56-76 gives 25 open and 25 idle connections, an idle time and a lifetime of one
  hour and a cache TTL of 55 minutes (in nanoseconds); and for every options value no
  field the caller set to a value other than zero is changed.
\<close>

theorem C6_defaults:
  "resolve_cache_flag (apply_defaults (zero_options\<lparr>Tenant := ''x''\<rparr>)) =
     \<lparr>Tenant = ''x'', MaxOpenConns = 25, MaxIdleConns = 25, ConnMaxIdle = 3600000000000,
      ConnMaxLifetime = 3600000000000, ForceUTC = False, QueryLogger = None,
      CacheEnabled = True, CacheTTL = 3300000000000\<rparr> \<and>
   Hour = 3600000000000 \<and> 55 * Minute = 3300000000000 \<and>
   (MaxOpenConns opts \<noteq> 0 \<longrightarrow>
      MaxOpenConns (resolve_cache_flag (apply_defaults opts)) = MaxOpenConns opts) \<and>
   (MaxIdleConns opts \<noteq> 0 \<longrightarrow>
      MaxIdleConns (resolve_cache_flag (apply_defaults opts)) = MaxIdleConns opts) \<and>
   (ConnMaxIdle opts \<noteq> 0 \<longrightarrow>
      ConnMaxIdle (resolve_cache_flag (apply_defaults opts)) = ConnMaxIdle opts) \<and>
   (ConnMaxLifetime opts \<noteq> 0 \<longrightarrow>
      ConnMaxLifetime (resolve_cache_flag (apply_defaults opts)) = ConnMaxLifetime opts) \<and>
   (CacheTTL opts \<noteq> 0 \<longrightarrow>
      CacheTTL (resolve_cache_flag (apply_defaults opts)) = CacheTTL opts) \<and>
   (CacheEnabled opts \<longrightarrow> CacheEnabled (resolve_cache_flag (apply_defaults opts))) \<and>
   Tenant (resolve_cache_flag (apply_defaults opts)) = Tenant opts \<and>
   ForceUTC (resolve_cache_flag (apply_defaults opts)) = ForceUTC opts \<and>
   QueryLogger (resolve_cache_flag (apply_defaults opts)) = QueryLogger opts"
  by (simp add: apply_defaults_def resolve_cache_flag_def zero_options_def Let_def Hour_def
      Minute_def)

text \<open>C6 for an options value with every field set: the resolution returns it unchanged.\<close>

theorem C6_defaults_witness:
  "resolve_cache_flag (apply_defaults
     \<lparr>Tenant = ''x'', MaxOpenConns = 10, MaxIdleConns = 5, ConnMaxIdle = 7, ConnMaxLifetime = 9,
      ForceUTC = True, QueryLogger = Some 1, CacheEnabled = True, CacheTTL = 11\<rparr>) =
     \<lparr>Tenant = ''x'', MaxOpenConns = 10, MaxIdleConns = 5, ConnMaxIdle = 7, ConnMaxLifetime = 9,
      ForceUTC = True, QueryLogger = Some 1, CacheEnabled = True, CacheTTL = 11\<rparr>"
  using C6_defaults [of "\<lparr>Tenant = ''x'', MaxOpenConns = 10, MaxIdleConns = 5, ConnMaxIdle = 7,
      ConnMaxLifetime = 9, ForceUTC = True, QueryLogger = Some 1, CacheEnabled = True,
      CacheTTL = 11\<rparr>"]
  by (simp add: apply_defaults_def resolve_cache_flag_def Let_def)

text \<open>
  Claim C7 (the empty tenant). With an empty tenant the call returns the error
  "tenant name is required" and the nil pool; the state is the one before the call, with
  the same history: no lock taken, no cache call, no catalog query, no handle opened. The
  error is a returned value, the call does not abort.
\<close>

theorem C7_empty_tenant:
  "Tenant opts = [] \<Longrightarrow>
     GetTenantConnectionV2 env c opts w =
       Returns (None, Some (Errorf ''tenant name is required'')) w"
  by (simp add: GetTenantConnectionV2_def)

text \<open>C7 for \<^verbatim>\<open>TenantConnectOptions{}\<close> in a fresh process.\<close>

theorem C7_empty_tenant_witness:
  "GetTenantConnectionV2 all_ok (CallerCtx 0) zero_options start_world =
     Returns (None, Some (Errorf ''tenant name is required'')) start_world"
proof -
  have t: "Tenant zero_options = []" by (simp add: zero_options_def)
  show ?thesis by (rule C7_empty_tenant [OF t])
qed

text \<open>
  Claim C8 (no half-built handle is leaked). The second generation closes the handle on
  each of its four failures after \<^verbatim>\<open>sql.Open\<close> (\<open>V2_failure_closes_handle\<close> above). The
  first generation does not: when its \<^verbatim>\<open>SET search_path\<close> statement fails, line 43 of
  tenant_con.go returns the error and the handle that line 34 opened is still open; the
  history of the call has no \<^verbatim>\<open>Close\<close> of it.
\<close>

theorem C8_v1_search_path_failure_leaks:
  assumes "\<not> Mutex w" and "Connections w (cacheKeyV1 tenant) = None"
    and "dbCatalog w = Some rows"
    and "filter (\<lambda>r. SchemaName r = tenant) rows = r # rest"
    and "\<forall>h. env h (CatalogScan tenant) = None"
    and "\<forall>h. env h (SqlOpen (dsn_of r)) = None"
    and "\<forall>h. env h (ExecStmt (next_db w) BackgroundCtx (''SET search_path TO '' @ tenant) []) =
           Some err"
  shows "returned (GetTenantConnection env tenant w) = Some (no_Connection, Some err) \<and>
     live (world_of (GetTenantConnection env tenant w)) = insert (next_db w) (live w) \<and>
     history (world_of (GetTenantConnection env tenant w)) = history w @
       [Locked, CacheGet (cacheKeyV1 tenant) True, Called (CatalogScan tenant),
        Called (SqlOpen (dsn_of r)), Logged (''Connection create for tenant '' @ '' '' @ tenant),
        Called (ExecStmt (next_db w) BackgroundCtx (''SET search_path TO '' @ tenant) []),
        Unlocked]"
  using assms
  by (simp add: GetTenantConnection_def GetTenantConnection_body_def deferred_Unlock_def
      andThen_def Mutex_Lock_def Mutex_Unlock_def Connections_Get_def GetTenant_def
      QueryRow_Scan_def sql_Open_def call_def record_event_def returned_def world_of_def)

text \<open>C8 for the tenant \<^verbatim>\<open>acme\<close> in a fresh process when every statement fails.\<close>

theorem C8_v1_leak_witness:
  "returned (GetTenantConnection exec_fails ''acme'' start_world) =
     Some (no_Connection, Some (ErrExternal ''syntax error'')) \<and>
   live (world_of (GetTenantConnection exec_fails ''acme'' start_world)) = {0} \<and>
   history (world_of (GetTenantConnection exec_fails ''acme'' start_world)) =
     [Locked, CacheGet ''con-acme'' True, Called (CatalogScan ''acme''),
      Called (SqlOpen ''postgres://u:p@db:5432/app?sslmode=disable''),
      Logged ''Connection create for tenant  acme'',
      Called (ExecStmt 0 BackgroundCtx ''SET search_path TO acme'' []), Unlocked]"
  using C8_v1_search_path_failure_leaks [of start_world "''acme''" "[acme_row]" acme_row "[]"
      exec_fails "ErrExternal ''syntax error''"]
  by (simp add: start_world_def acme_row_def exec_fails_def cacheKeyV1_def prefixConnection_def
      dsn_of_def)

text \<open>
  Claim C9 (the keys of the two generations). The claim says that the two generations'
  keys never collide, so that neither looks up and type-asserts an entry of the other. On
  the code both keys start with \<^verbatim>\<open>"con-"\<close> and the second generation only inserts \<^verbatim>\<open>"v2-"\<close>:
  the first generation's key for \<open>t1\<close> is the second generation's key for \<open>t2\<close> exactly when
  \<open>t1\<close> is \<^verbatim>\<open>"v2-"\<close> followed by \<open>t2\<close>. Then each generation finds the other's entry, and the
  unchecked type assertions of line 25 of tenant_con.go and of line 83 of
  tenant_con_v2.go panic: the first generation called for \<^verbatim>\<open>"v2-" + t\<close> while a pool of \<open>t\<close> is
  cached, and the second generation called for \<open>t\<close> while a connection of \<^verbatim>\<open>"v2-" + t\<close> is
  cached. README_V2.md ("Compatibilidade") says both generations can be used in one
  project.
\<close>

theorem C9_shared_key_type_confusion:
  "(cacheKeyV1 t1 = cacheKeyV2 t2) = (t1 = ''v2-'' @ t2) \<and>
   (\<not> Mutex w \<and> Connections w (cacheKeyV2 t) = Some it \<and>
    item it = CachedTenantConnectionV2 p \<longrightarrow>
      aborted (GetTenantConnection env (''v2-'' @ t) w) = Some TypeAssertionFailed \<and>
      history (world_of (GetTenantConnection env (''v2-'' @ t) w)) =
        history w @ [Locked, CacheGet (cacheKeyV2 t) True, Unlocked]) \<and>
   (Tenant opts \<noteq> [] \<and> (CacheEnabled opts \<or> 0 \<le> CacheTTL opts) \<and> \<not> Mutex w \<and>
    Connections w (cacheKeyV1 (''v2-'' @ Tenant opts)) = Some it \<and>
    item it = CachedConnection conn \<longrightarrow>
      aborted (GetTenantConnectionV2 env c opts w) = Some TypeAssertionFailed \<and>
      history (world_of (GetTenantConnectionV2 env c opts w)) =
        history w @ [Locked, CacheGet (cacheKeyV2 (Tenant opts)) True, Unlocked])"
proof -
  have keys: "(cacheKeyV1 t1 = cacheKeyV2 t2) = (t1 = ''v2-'' @ t2)"
    by (simp add: cacheKeyV1_def cacheKeyV2_def)
  have same: "\<And>u. cacheKeyV1 (CHR ''v'' # CHR ''2'' # CHR ''-'' # u) = cacheKeyV2 u"
    by (simp add: cacheKeyV1_def cacheKeyV2_def)
  have first: "\<not> Mutex w \<and> Connections w (cacheKeyV2 t) = Some it \<and>
    item it = CachedTenantConnectionV2 p \<longrightarrow>
      aborted (GetTenantConnection env (''v2-'' @ t) w) = Some TypeAssertionFailed \<and>
      history (world_of (GetTenantConnection env (''v2-'' @ t) w)) =
        history w @ [Locked, CacheGet (cacheKeyV2 t) True, Unlocked]"
  proof
    assume h: "\<not> Mutex w \<and> Connections w (cacheKeyV2 t) = Some it \<and>
      item it = CachedTenantConnectionV2 p"
    have k: "Connections w (cacheKeyV1 (''v2-'' @ t)) = Some it"
      using h by (simp add: same)
    have b: "GetTenantConnection_body env (''v2-'' @ t)
          (record_event Locked (w\<lparr>Mutex := True\<rparr>)) =
        Aborts TypeAssertionFailed
          (record_event (CacheGet (cacheKeyV1 (''v2-'' @ t)) True)
             (record_event Locked (w\<lparr>Mutex := True\<rparr>)))"
      using k h
      by (simp add: GetTenantConnection_body_def Connections_Get_def record_event_fields)
    have g: "GetTenantConnection env (''v2-'' @ t) w =
        Aborts TypeAssertionFailed
          (record_event Unlocked
             ((record_event (CacheGet (cacheKeyV1 (''v2-'' @ t)) True)
                (record_event Locked (w\<lparr>Mutex := True\<rparr>)))\<lparr>Mutex := False\<rparr>))"
      using h b
      by (simp add: GetTenantConnection_def Mutex_Lock_def andThen_def deferred_Unlock_def
          Mutex_Unlock_def record_event_fields)
    show "aborted (GetTenantConnection env (''v2-'' @ t) w) = Some TypeAssertionFailed \<and>
      history (world_of (GetTenantConnection env (''v2-'' @ t) w)) =
        history w @ [Locked, CacheGet (cacheKeyV2 t) True, Unlocked]"
      using g by (simp add: aborted_def world_of_def record_event_def same)
  qed
  have second: "Tenant opts \<noteq> [] \<and> (CacheEnabled opts \<or> 0 \<le> CacheTTL opts) \<and> \<not> Mutex w \<and>
    Connections w (cacheKeyV1 (''v2-'' @ Tenant opts)) = Some it \<and>
    item it = CachedConnection conn \<longrightarrow>
      aborted (GetTenantConnectionV2 env c opts w) = Some TypeAssertionFailed \<and>
      history (world_of (GetTenantConnectionV2 env c opts w)) =
        history w @ [Locked, CacheGet (cacheKeyV2 (Tenant opts)) True, Unlocked]"
  proof
    assume h: "Tenant opts \<noteq> [] \<and> (CacheEnabled opts \<or> 0 \<le> CacheTTL opts) \<and> \<not> Mutex w \<and>
      Connections w (cacheKeyV1 (''v2-'' @ Tenant opts)) = Some it \<and>
      item it = CachedConnection conn"
    let ?o = "resolve_cache_flag (apply_defaults opts)"
    have e: "CacheEnabled ?o" using h by (simp add: resolved_flag)
    have t: "Tenant ?o = Tenant opts" by (rule resolved_tenant)
    have k: "Connections w (cacheKeyV2 (Tenant opts)) = Some it" using h by (simp add: same)
    have cp: "cache_phase env c ?o w =
        Aborts TypeAssertionFailed
          (record_event Unlocked
            ((record_event (CacheGet (cacheKeyV2 (Tenant opts)) True)
               (record_event Locked (w\<lparr>Mutex := True\<rparr>)))\<lparr>Mutex := False\<rparr>))"
      using e t k h
      by (simp add: cache_phase_def andThen_def Mutex_Lock_def Mutex_Unlock_def
          Connections_Get_def record_event_fields)
    show "aborted (GetTenantConnectionV2 env c opts w) = Some TypeAssertionFailed \<and>
      history (world_of (GetTenantConnectionV2 env c opts w)) =
        history w @ [Locked, CacheGet (cacheKeyV2 (Tenant opts)) True, Unlocked]"
      using h cp
      by (simp add: GetTenantConnectionV2_def Let_def andThen_def aborted_def world_of_def
          record_event_def)
  qed
  from keys first second show ?thesis by blast
qed

text \<open>
  C9 for \<^verbatim>\<open>acme\<close>: the two keys are the same string; \<^verbatim>\<open>GetTenantConnection("v2-acme")\<close>
  panics while the second generation's pool of \<^verbatim>\<open>acme\<close> is cached, and
  \<^verbatim>\<open>GetTenantConnectionV2\<close> for \<^verbatim>\<open>acme\<close> panics while the first generation's connection of
  \<^verbatim>\<open>v2-acme\<close> is cached.
\<close>

theorem C9_type_confusion_witness:
  "cacheKeyV1 ''v2-acme'' = cacheKeyV2 ''acme'' \<and>
   aborted (GetTenantConnection all_ok ''v2-acme'' cached_world) = Some TypeAssertionFailed \<and>
   history (world_of (GetTenantConnection all_ok ''v2-acme'' cached_world)) =
     [Locked, CacheGet ''con-v2-acme'' True, Unlocked] \<and>
   aborted (GetTenantConnectionV2 all_ok (CallerCtx 0) (zero_options\<lparr>Tenant := ''acme''\<rparr>)
      v1_cached_world) = Some TypeAssertionFailed \<and>
   history (world_of (GetTenantConnectionV2 all_ok (CallerCtx 0)
      (zero_options\<lparr>Tenant := ''acme''\<rparr>) v1_cached_world)) =
     [Locked, CacheGet ''con-v2-acme'' True, Unlocked]"
proof -
  have one: "aborted (GetTenantConnection all_ok ''v2-acme'' cached_world) =
       Some TypeAssertionFailed \<and>
     history (world_of (GetTenantConnection all_ok ''v2-acme'' cached_world)) =
       [Locked, CacheGet ''con-v2-acme'' True, Unlocked]"
    using C9_shared_key_type_confusion [of "''v2-acme''" "''acme''" cached_world "''acme''"
        "\<lparr>item = CachedTenantConnectionV2 (Some 0), cost = 1, ttl = 55 * Minute\<rparr>" "Some 0"
        all_ok]
    by (simp add: cached_world_def cacheKeyV2_def prefixConnection_def)
  have two: "aborted (GetTenantConnectionV2 all_ok (CallerCtx 0)
       (zero_options\<lparr>Tenant := ''acme''\<rparr>) v1_cached_world) = Some TypeAssertionFailed \<and>
     history (world_of (GetTenantConnectionV2 all_ok (CallerCtx 0)
       (zero_options\<lparr>Tenant := ''acme''\<rparr>) v1_cached_world)) =
       [Locked, CacheGet ''con-v2-acme'' True, Unlocked]"
    using C9_shared_key_type_confusion [of "''v2-acme''" "''acme''" v1_cached_world "''acme''"
        "\<lparr>item = CachedConnection \<lparr>Connection_DB = Some 0, Connection_SearchPath = ''v2-acme''\<rparr>,
          cost = 1, ttl = Hour\<rparr>" "Some 0" all_ok "zero_options\<lparr>Tenant := ''acme''\<rparr>"
        "\<lparr>Connection_DB = Some 0, Connection_SearchPath = ''v2-acme''\<rparr>" "CallerCtx 0"]
    by (simp add: v1_cached_world_def zero_options_def cacheKeyV1_def cacheKeyV2_def
        prefixConnection_def)
  have key: "cacheKeyV1 ''v2-acme'' = cacheKeyV2 ''acme''"
    by (simp add: cacheKeyV1_def cacheKeyV2_def)
  from key one two show ?thesis by simp
qed

text \<open>
  Claim C10 (methods on a nil receiver). On the nil pointer \<^verbatim>\<open>Close\<close> returns no error,
  \<^verbatim>\<open>IsHealthy\<close> returns false, \<^verbatim>\<open>GetDB\<close> returns nil, \<^verbatim>\<open>ExecWithLog\<close> and \<^verbatim>\<open>QueryWithLog\<close>
  return an error and \<^verbatim>\<open>QueryRowWithLog\<close> returns \<^verbatim>\<open>&sql.Row{}\<close>. \<^verbatim>\<open>GetAge\<close> has no nil check:
  it reads \<^verbatim>\<open>tc.createdAt\<close> and panics, so not every public method is safe on nil.
\<close>

theorem C10_nil_receiver:
  "Close env None w = Returns None w \<and>
   IsHealthy env None c w = Returns False w \<and>
   GetDB None w = Returns None w \<and>
   ExecWithLog env None c query args w =
     Returns (None, Some (Errorf ''connection is closed or invalid'')) w \<and>
   QueryWithLog env None c query args w =
     Returns (None, Some (Errorf ''connection is closed or invalid'')) w \<and>
   QueryRowWithLog env None c query args w = Returns \<lparr>Row_err = None, Row_rows = None\<rparr> w \<and>
   GetAge None w = Aborts NilPointerDereference w"
  by (simp add: Close_def IsHealthy_def GetDB_def GetAge_def ExecWithLog_def QueryWithLog_def
      QueryRowWithLog_def andThen_def)

end
